theory Spec2Isabelle
  imports Complex_Main "HOL-Library.Word"
begin

section \<open>Numbers\<close>

text \<open>
  The nodelet computes with \<open>double\<close> and \<open>float\<close>. A finite value is a real number.
  Rounding is modelled where it decides a comparison of the source or moves a bound: the
  seconds of a \<open>ros::Duration\<close>, the yaw angles and the yaw error (declared \<open>float\<close>),
  and the \<open>int\<close> limits that the macro \<open>CLAMP\<close> converts to \<open>float\<close>. Elsewhere
  the arithmetic is exact: a published number can differ from the one of the code in its
  last digits. Inputs are finite, and overflow and signed zeros are not represented.
  The one non-finite value that the exact arithmetic of \<open>so3_cmd_callback\<close> can produce
  from finite inputs is a NaN, at \<open>std::sqrt\<close> of a negative number and at \<open>std::asin\<close>
  outside \<open>[-1, 1]\<close>; it is kept as a value of its own, and every comparison with it is
  false. What is proved of \<open>CLAMP\<close> is proved for every value of its first argument,
  so also for a NaN that the code gets from an input that is not finite.
\<close>

subsection \<open>Rounding to nearest, ties to even\<close>

text \<open>
  \<open>round_even\<close> is the integer nearest to \<open>y\<close>, the even one of the two at a tie.
  \<open>rnd p\<close> rounds a real to the nearest binary floating-point number with a significand
  of \<open>p\<close> bits, as IEEE 754 does by default; the exponent is not bounded, so that
  numbers below the normal range keep \<open>p\<close> bits and nothing overflows.
\<close>

definition round_even :: "real \<Rightarrow> int" where
  "round_even y =
     (let r = round y in if real_of_int r - y = 1 / 2 \<and> odd r then r - 1 else r)"

definition rnd :: "int \<Rightarrow> real \<Rightarrow> real" where
  "rnd p x =
     (if x = 0 then 0
      else (let u = 2 powr real_of_int (\<lfloor>log 2 \<bar>x\<bar>\<rfloor> - p + 1)
            in real_of_int (round_even (x / u)) * u))"

definition to_float :: "real \<Rightarrow> real" where
  "to_float = rnd 24"

definition to_double :: "real \<Rightarrow> real" where
  "to_double = rnd 53"

text \<open>
  The \<open>double\<close> values of the decimal literals \<open>1e-9\<close> (in \<open>Duration::toSec\<close>),
  \<open>1e-6\<close> (line 164) and \<open>0.1\<close> (line 387).
\<close>

definition double_1e_9 :: real where
  "double_1e_9 = 4835703278458517 / 2 ^ 82"

definition double_1e_6 :: real where
  "double_1e_6 = 4722366482869645 / 2 ^ 72"

definition double_0_1 :: real where
  "double_0_1 = 3602879701896397 / 2 ^ 55"

subsection \<open>Values and library functions\<close>

datatype dbl = NaN | Fin real

fun dbl_map :: "(real \<Rightarrow> real) \<Rightarrow> dbl \<Rightarrow> dbl" where
  "dbl_map f NaN = NaN"
| "dbl_map f (Fin x) = Fin (f x)"

fun dbl_less :: "dbl \<Rightarrow> dbl \<Rightarrow> bool" where
  "dbl_less (Fin a) (Fin b) = (a < b)"
| "dbl_less _ _ = False"

definition std_sqrt :: "real \<Rightarrow> dbl" where
  "std_sqrt x = (if x < 0 then NaN else Fin (sqrt x))"

definition std_asin :: "real \<Rightarrow> dbl" where
  "std_asin x = (if x < - 1 \<or> 1 < x then NaN else Fin (arcsin x))"

definition std_atan2 :: "real \<Rightarrow> real \<Rightarrow> real" where
  "std_atan2 y x =
     (if 0 < x then arctan (y / x)
      else if x < 0 then (if 0 \<le> y then arctan (y / x) + pi else arctan (y / x) - pi)
      else if 0 < y then pi / 2
      else if y < 0 then - (pi / 2)
      else 0)"

text \<open>
  \<open>M_PI\<close> is the \<open>double\<close> constant of \<open><cmath>\<close>, bit pattern \<open>0x400921FB54442D18\<close>:
  the binary fraction below, which prints as 3.141592653589793 and is not \<open>pi\<close>.
\<close>

definition M_PI :: real where
  "M_PI = 884279719003555 / 281474976710656"

text \<open>
  The macro of line 21,
  \<^verbatim>\<open>#define CLAMP(x, min, max) ((x) < (min)) ? (min) : ((x) > (max)) ? (max) : (x)\<close>,
  at its one use, the right-hand side of an assignment, with \<open>x\<close> a \<open>float\<close>. The
  bounds are \<open>int\<close>s there: both comparisons and the result convert them to \<open>float\<close>,
  which the call in \<open>crazy_vel_cmd\<close> below writes out.
\<close>

definition CLAMP :: "dbl \<Rightarrow> dbl \<Rightarrow> dbl \<Rightarrow> dbl" where
  "CLAMP x mn mx = (if dbl_less x mn then mn else if dbl_less mx x then mx else x)"

section \<open>Messages\<close>

text \<open>
  \<open>ros::Time\<close> counts nanoseconds. The difference of two times is a \<open>ros::Duration\<close>,
  normalised to whole seconds \<open>sec\<close> and \<open>0 \<le> nsec < 10^9\<close>; it is taken to fit the
  type (about 68 years). \<open>Duration::toSec\<close> is
  \<^verbatim>\<open>static_cast<double>(sec) + 1e-9 * static_cast<double>(nsec)\<close>: the product and
  the sum are each rounded to a \<open>double\<close>.
\<close>

type_synonym rostime = int

definition toSec :: "int \<Rightarrow> real" where
  "toSec d =
     to_double (real_of_int (d div 1000000000) +
                to_double (double_1e_9 * real_of_int (d mod 1000000000)))"

record Vector3 =
  vx :: real
  vy :: real
  vz :: real

record Quaternion =
  qw :: real
  qx :: real
  qy :: real
  qz :: real

text \<open>The fields of \<open>kr_mav_msgs/SO3Command\<close> that the nodelet reads.\<close>

record SO3Command =
  header_stamp :: rostime
  force :: Vector3
  orientation :: Quaternion
  angular_velocity :: Vector3
  kR :: "nat \<Rightarrow> real"
  kOm :: "nat \<Rightarrow> real"
  aux_angle_corrections :: "nat \<Rightarrow> real"
  aux_enable_motors :: bool

text \<open>The fields of \<open>nav_msgs/Odometry\<close> that the nodelet reads.\<close>

record Odometry =
  odom_stamp :: rostime
  pose_orientation :: Quaternion
  twist_angular :: Vector3

text \<open>\<open>geometry_msgs/Twist\<close>; a new message has all six fields zero.\<close>

record Twist =
  linear_x :: dbl
  linear_y :: dbl
  linear_z :: dbl
  angular_x :: dbl
  angular_y :: dbl
  angular_z :: dbl

definition Twist_new :: Twist where
  "Twist_new = \<lparr>linear_x = Fin 0, linear_y = Fin 0, linear_z = Fin 0,
                 angular_x = Fin 0, angular_y = Fin 0, angular_z = Fin 0\<rparr>"

text \<open>\<open>crazyflie_driver/crtpPacket\<close>: two bytes and a payload of 30 bytes.\<close>

record crtpPacket =
  pkt_header :: "8 word"
  pkt_size :: "8 word"
  pkt_data :: "8 word list"

definition crtpPacket_new :: crtpPacket where
  "crtpPacket_new = \<lparr>pkt_header = 0, pkt_size = 0, pkt_data = replicate 30 0\<rparr>"

section \<open>What the nodelet does to the outside\<close>

datatype publisher = crazy_cmd_vel_pub | crazy_fast_cmd_vel_pub

text \<open>
  A callback returns the list of its actions in program order: a message published, a call
  of the \<open>send_packet\<close> service together with the answer it got, a sleep (seconds).
  Console logging is left out.
\<close>

datatype action =
    Publish publisher Twist
  | Call crtpPacket bool
  | Sleep real

section \<open>The nodelet\<close>

record node =
  odom_set :: bool
  so3_cmd_set :: bool
  last_odom_time :: rostime
  q_odom :: Quaternion
  w_odom :: Vector3
  w_odom_last :: Vector3
  w_dot_odom :: Vector3
  so3_cmd_timeout :: real
  last_so3_cmd_time :: rostime
  last_so3_cmd :: SO3Command
  c1 :: real
  c2 :: real
  c3 :: real
  ang_acc_d_gain :: real
  kp_yaw_rate :: real
  thrust_pwm_min :: int
  thrust_pwm_max :: int
  send_ctbr_cmds :: bool
  is_brushless :: bool
  motor_status :: "32 word"
  armed :: bool
  arm_status :: int

subsection \<open>Service requests\<close>

text \<open>
  The answers of the \<open>send_packet\<close> service come from outside: a callback takes them as
  \<open>srv\<close>, where \<open>srv k\<close> is the result of the \<open>k\<close>-th \<open>packet_client_.call\<close> it makes.
  The answer only selects the line that is logged. The loops around the two calls of
  \<open>send_arming_request\<close> (\<open>for(int i=0; i<1; i++)\<close>) run once.
\<close>

definition arming_packet :: "bool \<Rightarrow> crtpPacket" where
  "arming_packet arm =
     crtpPacket_new\<lparr>pkt_header := 220, pkt_size := 2,
                     pkt_data := (replicate 30 0)[0 := 1, 1 := (if arm then 1 else 0)]\<rparr>"

definition send_arming_request :: "bool \<Rightarrow> bool \<Rightarrow> action list" where
  "send_arming_request arm ok = [Call (arming_packet arm) ok]"

definition reboot_packet :: "8 word \<Rightarrow> crtpPacket" where
  "reboot_packet cmd =
     crtpPacket_new\<lparr>pkt_header := 255, pkt_size := 2,
                     pkt_data := (replicate 30 0)[0 := 0xFE, 1 := cmd]\<rparr>"

definition reboot :: "bool \<Rightarrow> bool \<Rightarrow> action list" where
  "reboot ok_off ok_on =
     [Call (reboot_packet 0x02) ok_off, Sleep (1 / 2), Call (reboot_packet 0x03) ok_on]"

subsection \<open>Rotations\<close>

type_synonym Matrix3d = "nat \<Rightarrow> nat \<Rightarrow> real"

text \<open>Eigen's conversion of a quaternion to a rotation matrix; it does not normalise.\<close>

definition toRotationMatrix :: "Quaternion \<Rightarrow> Matrix3d" where
  "toRotationMatrix q =
     (let tx = 2 * qx q; ty = 2 * qy q; tz = 2 * qz q;
          twx = tx * qw q; twy = ty * qw q; twz = tz * qw q;
          txx = tx * qx q; txy = ty * qx q; txz = tz * qx q;
          tyy = ty * qy q; tyz = tz * qy q; tzz = tz * qz q
      in (\<lambda>i j.
            if i = 0 then (if j = 0 then 1 - (tyy + tzz) else if j = 1 then txy - twz else txz + twy)
            else if i = 1 then (if j = 0 then txy + twz else if j = 1 then 1 - (txx + tzz) else tyz - twx)
            else (if j = 0 then txz - twy else if j = 1 then tyz + twx else 1 - (txx + tyy))))"

text \<open>\<open>Eigen::AngleAxisd(a, Eigen::Vector3d::UnitZ())\<close> as a matrix.\<close>

definition AngleAxisd_UnitZ :: "real \<Rightarrow> Matrix3d" where
  "AngleAxisd_UnitZ a =
     (\<lambda>i j.
        if i = 0 then (if j = 0 then cos a else if j = 1 then - sin a else 0)
        else if i = 1 then (if j = 0 then sin a else if j = 1 then cos a else 0)
        else (if j = 0 then 0 else if j = 1 then 0 else 1))"

definition mat_mul :: "Matrix3d \<Rightarrow> Matrix3d \<Rightarrow> Matrix3d" where
  "mat_mul A B = (\<lambda>i j. A i 0 * B 0 j + A i 1 * B 1 j + A i 2 * B 2 j)"

subsection \<open>The conversion of a command (lines 264 to 347)\<close>

text \<open>Lines 273 and 274: the two angles are stored in a \<open>float\<close>.\<close>

definition yaw_cur :: "node \<Rightarrow> real" where
  "yaw_cur s =
     (let R_cur = toRotationMatrix (q_odom s) in to_float (std_atan2 (R_cur 1 0) (R_cur 0 0)))"

definition yaw_des :: "SO3Command \<Rightarrow> real" where
  "yaw_des msg =
     (let R_des = toRotationMatrix (orientation msg)
      in to_float (std_atan2 (R_des 1 0) (R_des 0 0)))"

text \<open>Line 277: the difference of the two \<open>float\<close>s is a \<open>float\<close>.\<close>

definition R_des_new :: "node \<Rightarrow> SO3Command \<Rightarrow> Matrix3d" where
  "R_des_new s msg =
     mat_mul (toRotationMatrix (orientation msg))
       (AngleAxisd_UnitZ (to_float (yaw_cur s - yaw_des msg)))"

definition pitch_des :: "node \<Rightarrow> SO3Command \<Rightarrow> dbl" where
  "pitch_des s msg =
     dbl_map (\<lambda>p. p * 180 / M_PI) (dbl_map uminus (std_asin (R_des_new s msg 2 0)))"

definition roll_des :: "node \<Rightarrow> SO3Command \<Rightarrow> real" where
  "roll_des s msg = std_atan2 (R_des_new s msg 2 1) (R_des_new s msg 2 2) * 180 / M_PI"

text \<open>Lines 284 to 288: the commanded force along the body z axis, floored at 0, in grams.\<close>

definition thrust_newtons :: "node \<Rightarrow> SO3Command \<Rightarrow> real" where
  "thrust_newtons s msg =
     (let R_cur = toRotationMatrix (q_odom s); f_des = force msg
      in vx f_des * R_cur 0 2 + vy f_des * R_cur 1 2 + vz f_des * R_cur 2 2)"

definition thrust_f :: "node \<Rightarrow> SO3Command \<Rightarrow> real" where
  "thrust_f s msg = max (thrust_newtons s msg) 0 * 1000 / 9.81"

text \<open>
  Lines 292 and 296. In \<open>thrust_pwm * thrust_pwm_max_\<close> the \<open>int\<close> is converted to
  \<open>float\<close>.
\<close>

definition thrust_pwm :: "node \<Rightarrow> SO3Command \<Rightarrow> dbl" where
  "thrust_pwm s msg =
     dbl_map (\<lambda>t. t * to_float (real_of_int (thrust_pwm_max s)))
       (dbl_map (\<lambda>r. c1 s + c2 s * r) (std_sqrt (c3 s + thrust_f s msg)))"

text \<open>
  Lines 301 to 305. \<open>e_yaw\<close> is a \<open>float\<close>: the difference of the two angles is rounded
  to one; the comparisons with \<open>M_PI\<close> are made in \<open>double\<close>, where a \<open>float\<close> is
  exact; \<open>e_yaw -= 2 * M_PI\<close> subtracts in \<open>double\<close> and stores the result in the
  \<open>float\<close>.
\<close>

definition wrap_yaw :: "real \<Rightarrow> real \<Rightarrow> real" where
  "wrap_yaw yaw_d yaw_c =
     (let e = to_float (yaw_d - yaw_c)
      in if e > M_PI then to_float (to_double (e - 2 * M_PI))
         else if e < - M_PI then to_float (to_double (e + 2 * M_PI))
         else e)"

definition e_yaw :: "node \<Rightarrow> SO3Command \<Rightarrow> real" where
  "e_yaw s msg = wrap_yaw (yaw_des msg) (yaw_cur s)"

definition yaw_rate_des :: "node \<Rightarrow> SO3Command \<Rightarrow> real" where
  "yaw_rate_des s msg = ((- kR msg 2 * e_yaw s msg) - vz (angular_velocity msg)) * (180 / M_PI)"

text \<open>Lines 319 to 328, the body rates sent when \<open>send_ctbr_cmds_\<close> is set.\<close>

definition roll_rate_des :: "node \<Rightarrow> SO3Command \<Rightarrow> real" where
  "roll_rate_des s msg =
     (let roll_rate_p = kOm msg 0 * (vx (angular_velocity msg) - vx (w_odom s));
          roll_rate_d = ang_acc_d_gain s * vx (w_dot_odom s)
      in (roll_rate_p - roll_rate_d) * (180 / M_PI))"

definition pitch_rate_des :: "node \<Rightarrow> SO3Command \<Rightarrow> real" where
  "pitch_rate_des s msg =
     (let pitch_rate_p = kOm msg 1 * (vy (angular_velocity msg) - vy (w_odom s));
          pitch_rate_d = ang_acc_d_gain s * vy (w_dot_odom s)
      in (pitch_rate_p - pitch_rate_d) * (180 / M_PI))"

definition crazy_vel_cmd :: "node \<Rightarrow> SO3Command \<Rightarrow> Twist" where
  "crazy_vel_cmd s msg =
     (let cmd = (if send_ctbr_cmds s
                 then Twist_new\<lparr>linear_y := Fin (roll_rate_des s msg),
                                 linear_x := Fin (pitch_rate_des s msg)\<rparr>
                 else Twist_new\<lparr>linear_y := Fin (roll_des s msg + aux_angle_corrections msg 0),
                                 linear_x := dbl_map (\<lambda>p. p + aux_angle_corrections msg 1)
                                               (pitch_des s msg)\<rparr>)
      in cmd\<lparr>linear_z := CLAMP (thrust_pwm s msg)
                               (Fin (to_float (real_of_int (thrust_pwm_min s))))
                               (Fin (to_float (real_of_int (thrust_pwm_max s)))),
              angular_z := Fin (yaw_rate_des s msg)\<rparr>)"

subsection \<open>\<open>so3_cmd_callback\<close>\<close>

text \<open>
  \<open>motor_status_\<close> is a 32-bit \<open>int\<close>, read as two's complement. Its increment at
  \<open>INT_MAX\<close> is undefined in C++; the model wraps around there.
\<close>

definition so3_cmd_callback :: "(nat \<Rightarrow> bool) \<Rightarrow> SO3Command \<Rightarrow> node \<Rightarrow> node \<times> action list" where
  "so3_cmd_callback srv msg s =
     (let s1 = s\<lparr>so3_cmd_set := True\<rparr>
      in if aux_enable_motors msg then
           (let (s2, arm) = (if is_brushless s1 \<and> \<not> armed s1
                              then (s1\<lparr>armed := True\<rparr>, send_arming_request True (srv 0))
                              else (s1, []))
            in if sint (motor_status s2) < 3 then
                 (s2\<lparr>last_so3_cmd := msg, last_so3_cmd_time := header_stamp msg,
                      motor_status := motor_status s2 + 1\<rparr>,
                  arm @ [Publish crazy_cmd_vel_pub Twist_new])
               else
                 (let spin = (if sint (motor_status s2) < 10
                              then [Publish crazy_cmd_vel_pub
                                      (Twist_new\<lparr>linear_z := Fin (real_of_int (thrust_pwm_min s2))\<rparr>)]
                              else []);
                      s3 = s2\<lparr>motor_status := motor_status s2 + 1\<rparr>
                  in (s3\<lparr>last_so3_cmd := msg, last_so3_cmd_time := header_stamp msg\<rparr>,
                      arm @ spin @ [Publish crazy_fast_cmd_vel_pub (crazy_vel_cmd s3 msg)])))
         else
           (let s2 = s1\<lparr>motor_status := 0, last_so3_cmd := msg,
                        last_so3_cmd_time := header_stamp msg\<rparr>;
                zero = [Publish crazy_cmd_vel_pub Twist_new]
            in if is_brushless s2 \<and> armed s2
               then (s2\<lparr>armed := False\<rparr>,
                     zero @ send_arming_request False (srv 0) @ reboot (srv 1) (srv 2))
               else (s2, zero)))"

subsection \<open>\<open>odom_callback\<close>\<close>

definition vec_sub :: "Vector3 \<Rightarrow> Vector3 \<Rightarrow> Vector3" where
  "vec_sub a b = \<lparr>vx = vx a - vx b, vy = vy a - vy b, vz = vz a - vz b\<rparr>"

definition vec_div :: "Vector3 \<Rightarrow> real \<Rightarrow> Vector3" where
  "vec_div a d = \<lparr>vx = vx a / d, vy = vy a / d, vz = vz a / d\<rparr>"

definition Vector3d_Zero :: Vector3 where
  "Vector3d_Zero = \<lparr>vx = 0, vy = 0, vz = 0\<rparr>"

text \<open>Lines 144 to 178: the part of \<open>odom_callback\<close> before the timeout check.\<close>

definition odom_update :: "Odometry \<Rightarrow> node \<Rightarrow> node" where
  "odom_update odom s =
     (let current_time = odom_stamp odom;
          w_odom_current = twist_angular odom;
          s1 = (if \<not> odom_set s
                then s\<lparr>odom_set := True, w_odom_last := w_odom_current,
                       last_odom_time := current_time, w_dot_odom := Vector3d_Zero\<rparr>
                else (let dt = toSec (current_time - last_odom_time s)
                      in if dt > double_1e_6
                         then s\<lparr>w_dot_odom := vec_div (vec_sub w_odom_current (w_odom_last s)) dt,
                                w_odom_last := w_odom_current,
                                last_odom_time := current_time\<rparr>
                         else s))
      in s1\<lparr>q_odom := pose_orientation odom, w_odom := w_odom_current\<rparr>)"

text \<open>\<open>now\<close> is the value of \<open>ros::Time::now()\<close> at line 180.\<close>

definition odom_callback :: "(nat \<Rightarrow> bool) \<Rightarrow> rostime \<Rightarrow> Odometry \<Rightarrow> node \<Rightarrow> node \<times> action list" where
  "odom_callback srv now odom s =
     (let s1 = odom_update odom s
      in if so3_cmd_set s1 \<and> toSec (now - last_so3_cmd_time s1) \<ge> so3_cmd_timeout s1
         then so3_cmd_callback srv (last_so3_cmd s1) s1
         else (s1, []))"

subsection \<open>\<open>onInit\<close>\<close>

text \<open>
  The parameter server, as far as \<open>onInit\<close> reads it; \<open>None\<close> is a parameter that is
  not set. \<open>getParam\<close> leaves the member untouched then (and \<open>ROS_FATAL\<close> only logs),
  \<open>param\<close> stores the default.
\<close>

record params =
  param_kp_yaw_rate :: "real option"
  param_c1 :: "real option"
  param_c2 :: "real option"
  param_c3 :: "real option"
  param_ang_acc_d_gain :: "real option"
  param_so3_cmd_timeout :: "real option"
  param_is_brushless :: "bool option"
  param_send_ctbr_cmds :: "bool option"
  param_thrust_pwm_max :: "int option"
  param_thrust_pwm_min :: "int option"
  param_mav_name :: "string option"

definition getParam :: "'a option \<Rightarrow> 'a \<Rightarrow> 'a" where
  "getParam p member = (case p of Some v \<Rightarrow> v | None \<Rightarrow> member)"

text \<open>
  \<open>m\<close> is the object before \<open>onInit\<close> runs. The three calibration constants are read
  in a chain of \<open>&&\<close>, which stops at the first one that is missing. Without \<open>mav_name\<close>
  the function returns before it subscribes, and no callback ever runs: \<open>None\<close>.
\<close>

definition onInit :: "params \<Rightarrow> node \<Rightarrow> node option" where
  "onInit p m =
     (let got_c1 = (param_c1 p \<noteq> None); got_c2 = (got_c1 \<and> param_c2 p \<noteq> None);
          s = m\<lparr>kp_yaw_rate := getParam (param_kp_yaw_rate p) (kp_yaw_rate m),
                c1 := getParam (param_c1 p) (c1 m),
                c2 := (if got_c1 then getParam (param_c2 p) (c2 m) else c2 m),
                c3 := (if got_c2 then getParam (param_c3 p) (c3 m) else c3 m),
                ang_acc_d_gain := getParam (param_ang_acc_d_gain p) (ang_acc_d_gain m),
                so3_cmd_timeout := getParam (param_so3_cmd_timeout p) double_0_1,
                is_brushless := getParam (param_is_brushless p) False,
                send_ctbr_cmds := getParam (param_send_ctbr_cmds p) False,
                thrust_pwm_max := getParam (param_thrust_pwm_max p) 60000,
                thrust_pwm_min := getParam (param_thrust_pwm_min p) 10000,
                odom_set := False, so3_cmd_set := False, motor_status := 0,
                armed := False, arm_status := 0\<rparr>
      in if param_mav_name p = None then None else Some s)"

subsection \<open>The two subscriptions\<close>

text \<open>
  A message on \<open>so3_cmd\<close> or on \<open>odom\<close>, with what the outside gives the callback while
  it runs: the answers of the service and, for \<open>odom\<close>, the clock.
\<close>

datatype event =
    so3_cmd "nat \<Rightarrow> bool" SO3Command
  | odom "nat \<Rightarrow> bool" rostime Odometry

fun deliver :: "event \<Rightarrow> node \<Rightarrow> node \<times> action list" where
  "deliver (so3_cmd srv msg) s = so3_cmd_callback srv msg s"
| "deliver (odom srv now od) s = odom_callback srv now od s"

text \<open>The callbacks run one at a time, in the order of the messages.\<close>

fun spin :: "event list \<Rightarrow> node \<Rightarrow> node \<times> action list" where
  "spin [] s = (s, [])"
| "spin (e # es) s =
     (let (s1, acts) = deliver e s; (s2, acts') = spin es s1 in (s2, acts @ acts'))"

section \<open>Vocabulary of the properties\<close>


fun requests :: "action list \<Rightarrow> action list" where
  "requests [] = []"
| "requests (Publish p tw # acts) = requests acts"
| "requests (a # acts) = a # requests acts"




text \<open>A number that a \<open>float\<close> holds exactly.\<close>

definition is_float :: "real \<Rightarrow> bool" where
  "is_float x \<longleftrightarrow> to_float x = x"

text \<open>
  The value that the specification gives for a force that is not positive,
  \<open>clamp(c1 + c2*sqrt(c3), pwmMin, pwmMax)\<close>.
\<close>

definition zero_force_floor_spec :: "node \<Rightarrow> dbl" where
  "zero_force_floor_spec s =
     CLAMP (dbl_map (\<lambda>r. c1 s + c2 s * r) (std_sqrt (c3 s)))
       (Fin (real_of_int (thrust_pwm_min s))) (Fin (real_of_int (thrust_pwm_max s)))"

text \<open>The arming request that opens the actions of a command with the motors enabled.\<close>

definition arm_actions :: "(nat \<Rightarrow> bool) \<Rightarrow> node \<Rightarrow> action list" where
  "arm_actions srv s =
     (if is_brushless s \<and> \<not> armed s then [Call (arming_packet True) (srv 0)] else [])"

text \<open>The condition of line 180, on the state before the sample.\<close>

definition timed_out :: "rostime \<Rightarrow> node \<Rightarrow> bool" where
  "timed_out now s \<longleftrightarrow> so3_cmd_set s \<and> so3_cmd_timeout s \<le> toSec (now - last_so3_cmd_time s)"

text \<open>
  The specification words its conditions with differences of timestamps: a number of
  nanoseconds as an exact number of seconds.
\<close>

definition seconds_exact :: "int \<Rightarrow> real" where
  "seconds_exact d = real_of_int d / 1000000000"


text \<open>The condition as the specification words it, with the timestamp of the sample.\<close>

definition stale_by_sample_stamp :: "Odometry \<Rightarrow> node \<Rightarrow> bool" where
  "stale_by_sample_stamp od s \<longleftrightarrow>
     so3_cmd_set s \<and>
     so3_cmd_timeout s \<le> seconds_exact (odom_stamp od - last_so3_cmd_time s)"

text \<open>
  What the arming requests in a list of actions ask for, last: \<open>b\<close> before any of them,
  true after a request to arm, false after a request to disarm.
\<close>

fun arming_state :: "bool \<Rightarrow> action list \<Rightarrow> bool" where
  "arming_state b [] = b"
| "arming_state b (Call p ok # acts) =
     arming_state (if p = arming_packet True then True
                   else if p = arming_packet False then False else b) acts"
| "arming_state b (_ # acts) = arming_state b acts"

fun is_disarm :: "action \<Rightarrow> bool" where
  "is_disarm (Call p ok) = (p = arming_packet False)"
| "is_disarm _ = False"

section \<open>Sample inputs\<close>

definition mem0 :: node where
  "mem0 = \<lparr>odom_set = False, so3_cmd_set = False, last_odom_time = 0,
      q_odom = \<lparr>qw = 1, qx = 0, qy = 0, qz = 0\<rparr>, w_odom = Vector3d_Zero,
      w_odom_last = Vector3d_Zero, w_dot_odom = Vector3d_Zero, so3_cmd_timeout = 0,
      last_so3_cmd_time = 0,
      last_so3_cmd = \<lparr>header_stamp = 0, force = Vector3d_Zero,
        orientation = \<lparr>qw = 0, qx = 0, qy = 0, qz = 0\<rparr>, angular_velocity = Vector3d_Zero,
        kR = (\<lambda>i. 0), kOm = (\<lambda>i. 0), aux_angle_corrections = (\<lambda>i. 0),
        aux_enable_motors = False\<rparr>,
      c1 = 0, c2 = 0, c3 = 0, ang_acc_d_gain = 0, kp_yaw_rate = 0, thrust_pwm_min = 0,
      thrust_pwm_max = 0, send_ctbr_cmds = False, is_brushless = False, motor_status = 0,
      armed = False, arm_status = 0\<rparr>"

text \<open>A brushless vehicle with the default limits 10000 and 60000 and the default timeout.\<close>

definition params0 :: params where
  "params0 = \<lparr>param_kp_yaw_rate = Some 1, param_c1 = Some 0, param_c2 = Some (1 / 4),
      param_c3 = Some 4, param_ang_acc_d_gain = Some 0, param_so3_cmd_timeout = None,
      param_is_brushless = Some True, param_send_ctbr_cmds = None,
      param_thrust_pwm_max = None, param_thrust_pwm_min = None,
      param_mav_name = Some ''crazyflie''\<rparr>"

definition node0 :: node where
  "node0 = the (onInit params0 mem0)"

definition srv_ok :: "nat \<Rightarrow> bool" where
  "srv_ok k = True"

definition srv_down :: "nat \<Rightarrow> bool" where
  "srv_down k = False"

text \<open>A command that pushes along \<open>-z\<close>, level, with the motors on, and one with them off.\<close>

definition msg_on :: SO3Command where
  "msg_on = \<lparr>header_stamp = 0, force = \<lparr>vx = 0, vy = 0, vz = - 1\<rparr>,
      orientation = \<lparr>qw = 1, qx = 0, qy = 0, qz = 0\<rparr>, angular_velocity = Vector3d_Zero,
      kR = (\<lambda>i. 1), kOm = (\<lambda>i. 1), aux_angle_corrections = (\<lambda>i. 0),
      aux_enable_motors = True\<rparr>"

definition msg_off :: SO3Command where
  "msg_off = msg_on\<lparr>aux_enable_motors := False\<rparr>"

definition odom0 :: Odometry where
  "odom0 = \<lparr>odom_stamp = 0, pose_orientation = \<lparr>qw = 1, qx = 0, qy = 0, qz = 0\<rparr>,
      twist_angular = \<lparr>vx = 1, vy = 2, vz = 3\<rparr>\<rparr>"




definition node3 :: node where
  "node3 = fst (spin [odom srv_ok 0 odom0, so3_cmd srv_ok msg_on, so3_cmd srv_ok msg_on,
                      so3_cmd srv_ok msg_on] node0)"

definition node10 :: node where
  "node10 = fst (spin [so3_cmd srv_ok msg_on, so3_cmd srv_ok msg_on, so3_cmd srv_ok msg_on,
                       so3_cmd srv_ok msg_on, so3_cmd srv_ok msg_on, so3_cmd srv_ok msg_on,
                       so3_cmd srv_ok msg_on] node3)"

section \<open>Rounding\<close>

lemma round_even_le: "real_of_int (round_even y) \<le> y + 1 / 2"
  using of_int_round_le [of y] by (auto simp: round_even_def Let_def)

lemma round_even_ge: "y - 1 / 2 \<le> real_of_int (round_even y)"
  using of_int_round_ge [of y] by (auto simp: round_even_def Let_def)

lemma round_even_of_int [simp]: "round_even (real_of_int k) = k"
  by (simp add: round_even_def)

lemma round_even_lower:
  assumes "real_of_int k \<le> y"
  shows "k \<le> round_even y"
proof -
  have "real_of_int k - 1 < real_of_int (round_even y)"
    using assms round_even_ge [of y] by linarith
  then have "real_of_int (k - 1) < real_of_int (round_even y)"
    by simp
  then have "k - 1 < round_even y"
    by (simp only: of_int_less_iff)
  then show ?thesis
    by simp
qed

lemma round_even_upper:
  assumes "y \<le> real_of_int k"
  shows "round_even y \<le> k"
proof -
  have "real_of_int (round_even y) < real_of_int k + 1"
    using assms round_even_le [of y] by linarith
  then have "real_of_int (round_even y) < real_of_int (k + 1)"
    by simp
  then have "round_even y < k + 1"
    by (simp only: of_int_less_iff)
  then show ?thesis
    by simp
qed

lemma binade_of:
  assumes "x \<noteq> 0"
  shows "2 powr real_of_int \<lfloor>log 2 \<bar>x\<bar>\<rfloor> \<le> \<bar>x\<bar> \<and> \<bar>x\<bar> < 2 powr real_of_int (\<lfloor>log 2 \<bar>x\<bar>\<rfloor> + 1)"
  using assms floor_log_eq_powr_iff [of "\<bar>x\<bar>" 2 "\<lfloor>log 2 \<bar>x\<bar>\<rfloor>"] by simp

lemma rnd_binade:
  assumes "2 powr real_of_int e \<le> \<bar>x\<bar>" and "\<bar>x\<bar> < 2 powr real_of_int (e + 1)"
  shows "rnd p x = real_of_int (round_even (x / 2 powr real_of_int (e - p + 1))) *
                     2 powr real_of_int (e - p + 1)"
proof -
  have "0 < \<bar>x\<bar>"
    using assms(1) powr_gt_zero [of 2 "real_of_int e"] by linarith
  then have "\<lfloor>log 2 \<bar>x\<bar>\<rfloor> = e"
    using assms floor_log_eq_powr_iff [of "\<bar>x\<bar>" 2 e] by simp
  moreover have "x \<noteq> 0"
    using \<open>0 < \<bar>x\<bar>\<close> by simp
  ultimately show ?thesis
    by (simp add: rnd_def Let_def)
qed

lemma rnd_on_grid:
  assumes "2 powr real_of_int e \<le> \<bar>x\<bar>" and "\<bar>x\<bar> < 2 powr real_of_int (e + 1)"
  shows "\<exists>k. rnd p x = real_of_int k * 2 powr real_of_int (e - p + 1) \<and>
             x / 2 powr real_of_int (e - p + 1) - 1 / 2 \<le> real_of_int k \<and>
             real_of_int k \<le> x / 2 powr real_of_int (e - p + 1) + 1 / 2"
  using rnd_binade [OF assms, of p] round_even_ge round_even_le by blast

lemma rnd_ge_grid:
  assumes "2 powr real_of_int e \<le> \<bar>x\<bar>" and "\<bar>x\<bar> < 2 powr real_of_int (e + 1)"
    and "real_of_int a * 2 powr real_of_int (e - p + 1) \<le> x"
  shows "real_of_int a * 2 powr real_of_int (e - p + 1) \<le> rnd p x"
proof -
  let ?u = "2 powr real_of_int (e - p + 1)"
  have u: "0 < ?u" by simp
  from assms(3) u have "real_of_int a \<le> x / ?u"
    by (simp add: pos_le_divide_eq)
  then have "a \<le> round_even (x / ?u)"
    by (rule round_even_lower)
  then have "real_of_int a * ?u \<le> real_of_int (round_even (x / ?u)) * ?u"
    using u by (simp add: mult_right_mono)
  then show ?thesis
    by (simp only: rnd_binade [OF assms(1,2), of p])
qed

lemma rnd_le_grid:
  assumes "2 powr real_of_int e \<le> \<bar>x\<bar>" and "\<bar>x\<bar> < 2 powr real_of_int (e + 1)"
    and "x \<le> real_of_int a * 2 powr real_of_int (e - p + 1)"
  shows "rnd p x \<le> real_of_int a * 2 powr real_of_int (e - p + 1)"
proof -
  let ?u = "2 powr real_of_int (e - p + 1)"
  have u: "0 < ?u" by simp
  from assms(3) u have "x / ?u \<le> real_of_int a"
    by (simp add: pos_divide_le_eq)
  then have "round_even (x / ?u) \<le> a"
    by (rule round_even_upper)
  then have "real_of_int (round_even (x / ?u)) * ?u \<le> real_of_int a * ?u"
    using u by (simp add: mult_right_mono)
  then show ?thesis
    by (simp only: rnd_binade [OF assms(1,2), of p])
qed

lemma rnd_nonneg:
  assumes "0 \<le> x"
  shows "0 \<le> rnd p x"
proof (cases "x = 0")
  case True
  then show ?thesis by (simp add: rnd_def)
next
  case False
  let ?e = "\<lfloor>log 2 \<bar>x\<bar>\<rfloor>"
  note b = binade_of [OF False]
  have "real_of_int 0 * 2 powr real_of_int (?e - p + 1) \<le> rnd p x"
    using b assms by (intro rnd_ge_grid) simp_all
  then show ?thesis by simp
qed

lemma rnd_nonpos:
  assumes "x \<le> 0"
  shows "rnd p x \<le> 0"
proof (cases "x = 0")
  case True
  then show ?thesis by (simp add: rnd_def)
next
  case False
  let ?e = "\<lfloor>log 2 \<bar>x\<bar>\<rfloor>"
  note b = binade_of [OF False]
  have "rnd p x \<le> real_of_int 0 * 2 powr real_of_int (?e - p + 1)"
    using b assms by (intro rnd_le_grid) simp_all
  then show ?thesis by simp
qed

lemma two_powr_int:
  assumes "0 \<le> m"
  shows "2 powr real_of_int m = real_of_int (2 ^ nat m)"
proof -
  have "2 powr real (nat m) = (2 :: real) ^ nat m"
    by (rule powr_realpow) simp
  then show ?thesis
    using assms by simp
qed

text \<open>Rounding does not cross a power of two.\<close>

lemma rnd_abs_le:
  assumes "\<bar>x\<bar> \<le> 2 powr real_of_int k" and "1 \<le> p"
  shows "\<bar>rnd p x\<bar> \<le> 2 powr real_of_int k"
proof (cases "x = 0")
  case True
  then show ?thesis by (simp add: rnd_def)
next
  case False
  define e where "e = \<lfloor>log 2 \<bar>x\<bar>\<rfloor>"
  define u :: real where "u = 2 powr real_of_int (e - p + 1)"
  define m where "m = k - e + p - 1"
  have b: "2 powr real_of_int e \<le> \<bar>x\<bar>" "\<bar>x\<bar> < 2 powr real_of_int (e + 1)"
    using binade_of [OF False] by (simp_all add: e_def)
  have "2 powr real_of_int e \<le> 2 powr real_of_int k"
    using b(1) assms(1) by linarith
  then have ek: "e \<le> k" by simp
  then have m0: "0 \<le> m" using assms(2) by (simp add: m_def)
  have u: "0 < u" by (simp add: u_def)
  have ku: "2 powr real_of_int k = 2 powr real_of_int m * u"
    by (simp add: u_def m_def flip: powr_add)
  have M: "2 powr real_of_int m = real_of_int (2 ^ nat m)"
    by (rule two_powr_int [OF m0])
  have up: "x \<le> real_of_int (2 ^ nat m) * 2 powr real_of_int (e - p + 1)"
    using assms(1) ku M by (simp add: u_def)
  have lo: "real_of_int (- (2 ^ nat m)) * 2 powr real_of_int (e - p + 1) \<le> x"
    using assms(1) ku M by (simp add: u_def)
  have "rnd p x \<le> real_of_int (2 ^ nat m) * 2 powr real_of_int (e - p + 1)"
    by (rule rnd_le_grid [OF b up])
  moreover have "real_of_int (- (2 ^ nat m)) * 2 powr real_of_int (e - p + 1) \<le> rnd p x"
    by (rule rnd_ge_grid [OF b lo])
  ultimately show ?thesis
    using ku M by (simp add: u_def abs_le_iff)
qed

lemma rnd_abs_ge:
  assumes "2 powr real_of_int k \<le> \<bar>x\<bar>" and "1 \<le> p"
  shows "2 powr real_of_int k \<le> \<bar>rnd p x\<bar>"
proof -
  have x0: "x \<noteq> 0"
    using assms(1) powr_gt_zero [of 2 "real_of_int k"] by auto
  define e where "e = \<lfloor>log 2 \<bar>x\<bar>\<rfloor>"
  define u :: real where "u = 2 powr real_of_int (e - p + 1)"
  have b: "2 powr real_of_int e \<le> \<bar>x\<bar>" "\<bar>x\<bar> < 2 powr real_of_int (e + 1)"
    using binade_of [OF x0] by (simp_all add: e_def)
  have "2 powr real_of_int k < 2 powr real_of_int (e + 1)"
    using b(2) assms(1) by linarith
  then have ke: "k \<le> e" by simp
  have p0: "0 \<le> p - 1" using assms(2) by simp
  have eu: "2 powr real_of_int e = 2 powr real_of_int (p - 1) * u"
    by (simp add: u_def flip: powr_add)
  have M: "2 powr real_of_int (p - 1) = real_of_int (2 ^ nat (p - 1))"
    by (rule two_powr_int [OF p0])
  have ke': "2 powr real_of_int k \<le> 2 powr real_of_int e"
    using ke by simp
  show ?thesis
  proof (cases "0 \<le> x")
    case True
    then have "real_of_int (2 ^ nat (p - 1)) * 2 powr real_of_int (e - p + 1) \<le> x"
      using b(1) eu M by (simp add: u_def)
    then have "real_of_int (2 ^ nat (p - 1)) * 2 powr real_of_int (e - p + 1) \<le> rnd p x"
      by (rule rnd_ge_grid [OF b])
    then show ?thesis
      using eu M ke' by (simp add: u_def)
  next
    case False
    then have "x \<le> real_of_int (- (2 ^ nat (p - 1))) * 2 powr real_of_int (e - p + 1)"
      using b(1) eu M by (simp add: u_def)
    then have "rnd p x \<le> real_of_int (- (2 ^ nat (p - 1))) * 2 powr real_of_int (e - p + 1)"
      by (rule rnd_le_grid [OF b])
    then show ?thesis
      using eu M ke' by (simp add: u_def)
  qed
qed

subsection \<open>The binades of the yaw angles\<close>

lemma powr_consts:
  "2 powr real_of_int 0 = 1" "2 powr real_of_int 1 = 2" "2 powr real_of_int 2 = 4"
  "2 powr real_of_int 3 = 8"
  "2 powr real_of_int (1 - 24 + 1) = 1 / 4194304"
  "2 powr real_of_int (2 - 24 + 1) = 1 / 2097152"
  "2 powr real_of_int (1 - 53 + 1) = 1 / 2251799813685248"
  by (simp_all add: powr_neg_numeral)

lemma to_float_abs_le:
  "\<bar>x\<bar> \<le> 1 \<Longrightarrow> \<bar>to_float x\<bar> \<le> 1"
  "\<bar>x\<bar> \<le> 2 \<Longrightarrow> \<bar>to_float x\<bar> \<le> 2"
  "\<bar>x\<bar> \<le> 4 \<Longrightarrow> \<bar>to_float x\<bar> \<le> 4"
  using rnd_abs_le [of x 0 24] rnd_abs_le [of x 1 24] rnd_abs_le [of x 2 24]
  by (simp_all add: to_float_def)

lemma to_float_abs_ge: "4 \<le> \<bar>x\<bar> \<Longrightarrow> 4 \<le> \<bar>to_float x\<bar>"
  using rnd_abs_ge [of 2 x 24] by (simp add: to_float_def)

lemma to_double_abs_le:
  "\<bar>x\<bar> \<le> 1 \<Longrightarrow> \<bar>to_double x\<bar> \<le> 1"
  "\<bar>x\<bar> \<le> 2 \<Longrightarrow> \<bar>to_double x\<bar> \<le> 2"
  using rnd_abs_le [of x 0 53] rnd_abs_le [of x 1 53]
  by (simp_all add: to_double_def)

lemma to_float_sign: "0 \<le> x \<Longrightarrow> 0 \<le> to_float x" "x \<le> 0 \<Longrightarrow> to_float x \<le> 0"
  by (simp_all add: to_float_def rnd_nonneg rnd_nonpos)

lemma to_double_sign: "0 \<le> x \<Longrightarrow> 0 \<le> to_double x" "x \<le> 0 \<Longrightarrow> to_double x \<le> 0"
  by (simp_all add: to_double_def rnd_nonneg rnd_nonpos)

lemma to_float_grid_2_4:
  assumes "2 \<le> \<bar>x\<bar>" "\<bar>x\<bar> < 4"
  shows "\<exists>k. to_float x = real_of_int k / 4194304 \<and>
             x * 4194304 - 1 / 2 \<le> real_of_int k \<and> real_of_int k \<le> x * 4194304 + 1 / 2"
  using rnd_on_grid [of 1 x 24] assms by (simp add: to_float_def powr_neg_numeral)

lemma to_float_le_2_4:
  assumes "2 \<le> \<bar>x\<bar>" "\<bar>x\<bar> < 4" "x \<le> real_of_int a / 4194304"
  shows "to_float x \<le> real_of_int a / 4194304"
  using rnd_le_grid [of 1 x a 24] assms by (simp add: to_float_def powr_neg_numeral)

lemma to_float_ge_2_4:
  assumes "2 \<le> \<bar>x\<bar>" "\<bar>x\<bar> < 4" "real_of_int a / 4194304 \<le> x"
  shows "real_of_int a / 4194304 \<le> to_float x"
  using rnd_ge_grid [of 1 x a 24] assms by (simp add: to_float_def powr_neg_numeral)

lemma to_float_le_4_8:
  assumes "4 \<le> \<bar>x\<bar>" "\<bar>x\<bar> < 8" "x \<le> real_of_int a / 2097152"
  shows "to_float x \<le> real_of_int a / 2097152"
  using rnd_le_grid [of 2 x a 24] assms by (simp add: to_float_def powr_neg_numeral)

lemma to_float_ge_4_8:
  assumes "4 \<le> \<bar>x\<bar>" "\<bar>x\<bar> < 8" "real_of_int a / 2097152 \<le> x"
  shows "real_of_int a / 2097152 \<le> to_float x"
  using rnd_ge_grid [of 2 x a 24] assms by (simp add: to_float_def powr_neg_numeral)

lemma to_double_le_2_4:
  assumes "2 \<le> \<bar>x\<bar>" "\<bar>x\<bar> < 4" "x \<le> real_of_int a / 2251799813685248"
  shows "to_double x \<le> real_of_int a / 2251799813685248"
  using rnd_le_grid [of 1 x a 53] assms by (simp add: to_double_def powr_neg_numeral)

lemma to_double_ge_2_4:
  assumes "2 \<le> \<bar>x\<bar>" "\<bar>x\<bar> < 4" "real_of_int a / 2251799813685248 \<le> x"
  shows "real_of_int a / 2251799813685248 \<le> to_double x"
  using rnd_ge_grid [of 1 x a 53] assms by (simp add: to_double_def powr_neg_numeral)

subsection \<open>Rounding a given number\<close>

lemma round_even_near:
  assumes "real_of_int a - 1 / 2 < y" "y < real_of_int a + 1 / 2"
  shows "round_even y = a"
proof -
  have "real_of_int a - 1 < real_of_int (round_even y)"
    using round_even_ge [of y] assms(1) by linarith
  then have "real_of_int (a - 1) < real_of_int (round_even y)" by simp
  then have l: "a - 1 < round_even y" by (simp only: of_int_less_iff)
  have "real_of_int (round_even y) < real_of_int a + 1"
    using round_even_le [of y] assms(2) by linarith
  then have "real_of_int (round_even y) < real_of_int (a + 1)" by simp
  then have "round_even y < a + 1" by (simp only: of_int_less_iff)
  with l show ?thesis by simp
qed

lemma rnd_near:
  assumes "2 powr real_of_int e \<le> \<bar>x\<bar>" and "\<bar>x\<bar> < 2 powr real_of_int (e + 1)"
    and "(real_of_int a - 1 / 2) * 2 powr real_of_int (e - p + 1) < x"
    and "x < (real_of_int a + 1 / 2) * 2 powr real_of_int (e - p + 1)"
  shows "rnd p x = real_of_int a * 2 powr real_of_int (e - p + 1)"
proof -
  let ?u = "2 powr real_of_int (e - p + 1)"
  have u: "0 < ?u" by simp
  from assms(3) u have "real_of_int a - 1 / 2 < x / ?u"
    by (simp only: pos_less_divide_eq)
  moreover from assms(4) u have "x / ?u < real_of_int a + 1 / 2"
    by (simp only: pos_divide_less_eq)
  ultimately have "round_even (x / ?u) = a" by (rule round_even_near)
  then show ?thesis
    by (simp only: rnd_binade [OF assms(1,2), of p])
qed

lemma to_float_0 [simp]: "to_float 0 = 0"
  by (simp add: to_float_def rnd_def)

lemma to_double_0 [simp]: "to_double 0 = 0"
  by (simp add: to_double_def rnd_def)

lemma to_float_10000: "to_float 10000 = 10000"
  using rnd_near [of 13 10000 10240000 24]
  by (simp add: to_float_def powr_neg_numeral)

lemma to_float_60000: "to_float 60000 = 60000"
  using rnd_near [of 15 60000 15360000 24]
  by (simp add: to_float_def powr_neg_numeral)

lemma to_double_1: "to_double 1 = 1"
  using rnd_near [of 0 1 4503599627370496 53]
  by (simp add: to_double_def powr_neg_numeral)




lemma toSec_0: "toSec 0 = 0"
  by (simp add: toSec_def)


lemma toSec_1s: "toSec 1000000000 = 1"
  by (simp add: toSec_def to_double_1)


text \<open>A tenth of a second: \<open>1e-9 * 100000000.0\<close> is the \<open>double\<close> of the literal \<open>0.1\<close>.\<close>

lemma to_double_tenth:
  "to_double (double_1e_9 * 100000000) = double_0_1"
  using rnd_near [of "- 4" "double_1e_9 * 100000000" 7205759403792794 53]
  by (simp add: to_double_def double_1e_9_def double_0_1_def powr_neg_numeral)

lemma to_double_tenth_again: "to_double double_0_1 = double_0_1"
  using rnd_near [of "- 4" double_0_1 7205759403792794 53]
  by (simp add: to_double_def double_0_1_def powr_neg_numeral)

lemma toSec_tenth: "toSec 100000000 = double_0_1"
proof -
  have "toSec 100000000 = to_double (to_double (double_1e_9 * 100000000))"
    by (simp add: toSec_def)
  also have "\<dots> = to_double double_0_1"
    by (simp only: to_double_tenth)
  also have "\<dots> = double_0_1"
    by (rule to_double_tenth_again)
  finally show ?thesis .
qed

subsection \<open>Rounding keeps a bound that is itself a floating-point number\<close>

lemma rnd_mono_le:
  assumes "1 \<le> p"
    and "2 powr real_of_int e \<le> real_of_int a * 2 powr real_of_int (e - p + 1)"
    and "real_of_int a * 2 powr real_of_int (e - p + 1) < 2 powr real_of_int (e + 1)"
    and "x \<le> real_of_int a * 2 powr real_of_int (e - p + 1)"
  shows "rnd p x \<le> real_of_int a * 2 powr real_of_int (e - p + 1)"
proof -
  let ?B = "real_of_int a * 2 powr real_of_int (e - p + 1)"
  have pos: "0 < (2::real) powr real_of_int e" by simp
  consider "x \<le> 0" | "0 < x" "x < 2 powr real_of_int e" | "2 powr real_of_int e \<le> x"
    by linarith
  then show ?thesis
  proof cases
    case 1
    then have "rnd p x \<le> 0" by (rule rnd_nonpos)
    with pos assms(2) show ?thesis by linarith
  next
    case 2
    then have "\<bar>x\<bar> \<le> 2 powr real_of_int e" by simp
    then have "\<bar>rnd p x\<bar> \<le> 2 powr real_of_int e" using assms(1) by (rule rnd_abs_le)
    with assms(2) show ?thesis by linarith
  next
    case 3
    with pos have "2 powr real_of_int e \<le> \<bar>x\<bar>" "\<bar>x\<bar> < 2 powr real_of_int (e + 1)"
      using assms(3,4) by linarith+
    then show ?thesis using assms(4) by (rule rnd_le_grid)
  qed
qed

lemma rnd_mono_ge:
  assumes "1 \<le> p"
    and "2 powr real_of_int e \<le> real_of_int a * 2 powr real_of_int (e - p + 1)"
    and "real_of_int a * 2 powr real_of_int (e - p + 1) < 2 powr real_of_int (e + 1)"
    and "real_of_int a * 2 powr real_of_int (e - p + 1) \<le> x"
  shows "real_of_int a * 2 powr real_of_int (e - p + 1) \<le> rnd p x"
proof -
  let ?B = "real_of_int a * 2 powr real_of_int (e - p + 1)"
  have pos: "0 < (2::real) powr real_of_int e" by simp
  with assms(2,4) have x: "0 < x" "2 powr real_of_int e \<le> x" by linarith+
  show ?thesis
  proof (cases "x < 2 powr real_of_int (e + 1)")
    case True
    with x have "2 powr real_of_int e \<le> \<bar>x\<bar>" "\<bar>x\<bar> < 2 powr real_of_int (e + 1)"
      by linarith+
    then show ?thesis using assms(4) by (rule rnd_ge_grid)
  next
    case False
    with x have "2 powr real_of_int (e + 1) \<le> \<bar>x\<bar>" by linarith
    then have "2 powr real_of_int (e + 1) \<le> \<bar>rnd p x\<bar>" using assms(1) by (rule rnd_abs_ge)
    moreover have "0 \<le> rnd p x" using x(1) by (intro rnd_nonneg) simp
    ultimately show ?thesis using assms(3) by linarith
  qed
qed



lemma to_double_ge_1: "1 \<le> x \<Longrightarrow> 1 \<le> to_double x"
  using rnd_mono_ge [of 53 0 4503599627370496 x]
  by (simp add: to_double_def powr_neg_numeral)

lemma to_double_le_1: "x \<le> 1 \<Longrightarrow> to_double x \<le> 1"
  using rnd_mono_le [of 53 0 4503599627370496 x]
  by (simp add: to_double_def powr_neg_numeral)

subsection \<open>The guard \<open>dt > 1e-6\<close> in nanoseconds\<close>

lemma toSec_negative:
  assumes "d < 0"
  shows "toSec d \<le> 0"
proof -
  from assms have "d div 1000000000 < 0" by (simp add: div_neg_pos_less0)
  then have s: "real_of_int (d div 1000000000) \<le> - 1" by simp
  have "d mod 1000000000 < 1000000000" by simp
  then have "real_of_int (d mod 1000000000) \<le> 1000000000 - 1"
    by linarith
  then have "double_1e_9 * real_of_int (d mod 1000000000) \<le> 1"
    by (simp add: double_1e_9_def)
  then have "to_double (double_1e_9 * real_of_int (d mod 1000000000)) \<le> 1"
    by (rule to_double_le_1)
  with s have "real_of_int (d div 1000000000) +
      to_double (double_1e_9 * real_of_int (d mod 1000000000)) \<le> 0"
    by linarith
  then show ?thesis
    unfolding toSec_def by (rule to_double_sign)
qed

lemma toSec_whole_seconds:
  assumes "1000000000 \<le> d"
  shows "1 \<le> toSec d"
proof -
  from assms have "0 < d div 1000000000" by (simp add: pos_imp_zdiv_pos_iff)
  then have s: "1 \<le> real_of_int (d div 1000000000)" by simp
  have "0 \<le> real_of_int (d mod 1000000000)" by simp
  then have "0 \<le> double_1e_9 * real_of_int (d mod 1000000000)"
    by (simp add: double_1e_9_def)
  then have "0 \<le> to_double (double_1e_9 * real_of_int (d mod 1000000000))"
    by (rule to_double_sign)
  with s have "1 \<le> real_of_int (d div 1000000000) +
      to_double (double_1e_9 * real_of_int (d mod 1000000000))"
    by linarith
  then show ?thesis
    unfolding toSec_def by (rule to_double_ge_1)
qed

lemma toSec_fraction:
  assumes "0 \<le> d" "d < 1000000000"
  shows "toSec d = to_double (to_double (double_1e_9 * real_of_int d))"
  using assms by (simp add: toSec_def)




subsection \<open>The default timeout in nanoseconds\<close>

lemma to_double_ge_tenth: "double_0_1 \<le> x \<Longrightarrow> double_0_1 \<le> to_double x"
  using rnd_mono_ge [of 53 "- 4" 7205759403792794 x]
  by (simp add: to_double_def double_0_1_def powr_neg_numeral)

lemma to_double_le_below_tenth:
  "x \<le> 7205759403792793 / 2 ^ 56 \<Longrightarrow> to_double x \<le> 7205759403792793 / 2 ^ 56"
  using rnd_mono_le [of 53 "- 4" 7205759403792793 x]
  by (simp add: to_double_def powr_neg_numeral)

lemma toSec_less_tenth:
  assumes "d < 100000000"
  shows "toSec d < double_0_1"
proof (cases "0 \<le> d")
  case True
  have "real_of_int d \<le> 99999999" using assms by simp
  then have "double_1e_9 * real_of_int d \<le> 7205759403792793 / 2 ^ 56"
    by (simp add: double_1e_9_def)
  then have "to_double (double_1e_9 * real_of_int d) \<le> 7205759403792793 / 2 ^ 56"
    by (rule to_double_le_below_tenth)
  then have "to_double (to_double (double_1e_9 * real_of_int d)) \<le> 7205759403792793 / 2 ^ 56"
    by (rule to_double_le_below_tenth)
  then have "toSec d \<le> 7205759403792793 / 2 ^ 56"
    using True assms by (simp add: toSec_fraction)
  then show ?thesis by (simp add: double_0_1_def)
next
  case False
  then have "toSec d \<le> 0" by (intro toSec_negative) simp
  then show ?thesis by (simp add: double_0_1_def)
qed

lemma toSec_ge_tenth:
  assumes "100000000 \<le> d"
  shows "double_0_1 \<le> toSec d"
proof (cases "d < 1000000000")
  case True
  have "100000000 \<le> real_of_int d" using assms by simp
  then have "double_0_1 \<le> double_1e_9 * real_of_int d"
    by (simp add: double_1e_9_def double_0_1_def)
  then have "double_0_1 \<le> to_double (double_1e_9 * real_of_int d)"
    by (rule to_double_ge_tenth)
  then have "double_0_1 \<le> to_double (to_double (double_1e_9 * real_of_int d))"
    by (rule to_double_ge_tenth)
  then show ?thesis using True assms by (simp add: toSec_fraction)
next
  case False
  then have "1 \<le> toSec d" by (intro toSec_whole_seconds) simp
  then show ?thesis by (simp add: double_0_1_def)
qed

text \<open>
  With the default timeout, the \<open>double\<close> age reaches the \<open>double\<close> literal \<open>0.1\<close>
  exactly when the clock is at least 100000000 ns past the stored timestamp.
\<close>

lemma toSec_default_timeout: "double_0_1 \<le> toSec d \<longleftrightarrow> 100000000 \<le> d"
  using toSec_less_tenth [of d] toSec_ge_tenth [of d] by linarith

subsection \<open>Integers that a \<open>float\<close> holds\<close>

lemma rnd_exact:
  assumes "2 powr real_of_int e \<le> \<bar>x\<bar>" and "\<bar>x\<bar> < 2 powr real_of_int (e + 1)"
    and "x / 2 powr real_of_int (e - p + 1) = real_of_int k"
  shows "rnd p x = x"
proof -
  have "rnd p x = real_of_int (round_even (x / 2 powr real_of_int (e - p + 1))) *
      2 powr real_of_int (e - p + 1)"
    using assms(1,2) by (rule rnd_binade)
  also have "\<dots> = x / 2 powr real_of_int (e - p + 1) * 2 powr real_of_int (e - p + 1)"
    by (simp only: assms(3) round_even_of_int)
  also have "\<dots> = x" by simp
  finally show ?thesis .
qed

text \<open>Every integer up to \<open>2^24\<close> in magnitude is a \<open>float\<close>.\<close>

lemma is_float_int:
  assumes "\<bar>n\<bar> \<le> 16777216"
  shows "is_float (real_of_int n)"
proof (cases "n = 0")
  case True
  then show ?thesis by (simp add: is_float_def)
next
  case False
  define x where "x = real_of_int n"
  define e where "e = \<lfloor>log 2 \<bar>x\<bar>\<rfloor>"
  have x0: "x \<noteq> 0" using False by (simp add: x_def)
  have x1: "1 \<le> \<bar>x\<bar>" using False unfolding x_def by (simp flip: of_int_abs)
  have x2: "\<bar>x\<bar> \<le> 16777216" using assms unfolding x_def by (simp flip: of_int_abs)
  from binade_of [OF x0]
  have b: "2 powr real_of_int e \<le> \<bar>x\<bar>" "\<bar>x\<bar> < 2 powr real_of_int (e + 1)"
    unfolding e_def by simp_all
  have "2 powr real_of_int 0 < 2 powr real_of_int (e + 1)"
    using x1 b(2) by simp
  then have "real_of_int 0 < real_of_int (e + 1)"
    by (simp only: powr_less_cancel_iff [of 2] one_less_numeral_iff semiring_norm)
  then have e0: "0 \<le> e" by simp
  have "2 powr real_of_int e \<le> 2 powr real_of_int 24"
    using x2 b(1) by simp
  then have "real_of_int e \<le> real_of_int 24"
    by (simp only: powr_le_cancel_iff [of 2] one_less_numeral_iff semiring_norm)
  then have e24: "e \<le> 24" by simp
  have "\<exists>k. x / 2 powr real_of_int (e - 24 + 1) = real_of_int k"
  proof (cases "e \<le> 23")
    case True
    then have m: "0 \<le> 23 - e" by simp
    have "x / 2 powr real_of_int (e - 24 + 1) = x * 2 powr real_of_int (23 - e)"
      by (simp add: powr_diff field_simps flip: powr_add)
    also have "\<dots> = real_of_int n * real_of_int (2 ^ nat (23 - e))"
      by (simp only: two_powr_int [OF m] x_def)
    also have "\<dots> = real_of_int (n * 2 ^ nat (23 - e))"
      by simp
    finally show ?thesis by blast
  next
    case False
    with e24 have e: "e = 24" by simp
    have "16777216 \<le> \<bar>x\<bar>" using b(1) unfolding e by simp
    with x2 have "\<bar>x\<bar> = 16777216" by simp
    then have "x = 16777216 \<or> x = - 16777216" by linarith
    then have "x / 2 powr real_of_int (e - 24 + 1) = real_of_int 8388608 \<or>
        x / 2 powr real_of_int (e - 24 + 1) = real_of_int (- 8388608)"
      unfolding e by auto
    then show ?thesis by blast
  qed
  then obtain k where "x / 2 powr real_of_int (e - 24 + 1) = real_of_int k" ..
  with b have "rnd 24 x = x" by (rule rnd_exact)
  then show ?thesis by (simp add: is_float_def to_float_def x_def)
qed

section \<open>The sample states\<close>

lemma onInit_params0: "onInit params0 mem0 = Some node0"
  by (simp add: node0_def onInit_def params0_def Let_def)

lemma node0_eq:
  "node0 = mem0\<lparr>kp_yaw_rate := 1, c2 := 1 / 4, c3 := 4, so3_cmd_timeout := double_0_1,
     is_brushless := True, thrust_pwm_max := 60000, thrust_pwm_min := 10000\<rparr>"
  by (simp add: node0_def onInit_def params0_def Let_def getParam_def mem0_def)

lemma node3_eq:
  "node3 = node0\<lparr>odom_set := True, w_odom_last := twist_angular odom0,
     w_odom := twist_angular odom0, so3_cmd_set := True, last_so3_cmd := msg_on,
     armed := True, motor_status := 3\<rparr>"
  by (simp add: node3_def node0_eq mem0_def odom_callback_def odom_update_def
      so3_cmd_callback_def Let_def odom0_def msg_on_def Vector3d_Zero_def)

lemmas node3_simps = node3_eq node0_eq mem0_def msg_on_def odom0_def Vector3d_Zero_def

lemma node10_eq: "node10 = node3\<lparr>motor_status := 10\<rparr>"
  by (simp add: node10_def node3_eq node0_eq mem0_def so3_cmd_callback_def Let_def msg_on_def)

lemma node0_fields:
  "\<not> odom_set node0" "\<not> armed node0" "is_brushless node0" "motor_status node0 = 0"
  "thrust_pwm_min node0 = 10000" "thrust_pwm_max node0 = 60000"
  by (simp_all add: node0_eq mem0_def)

lemma node3_fields:
  "c1 node3 = 0" "c2 node3 = 1 / 4" "c3 node3 = 4"
  "thrust_pwm_min node3 = 10000" "thrust_pwm_max node3 = 60000"
  "is_brushless node3" "armed node3" "motor_status node3 = 3" "so3_cmd_set node3"
  "last_so3_cmd node3 = msg_on" "last_so3_cmd_time node3 = 0" "so3_cmd_timeout node3 = double_0_1"
  by (simp_all add: node3_simps)

lemma node10_fields:
  "motor_status node10 = 10" "is_brushless node10" "armed node10"
  by (simp_all add: node10_eq node3_fields)

lemma msg_fields: "aux_enable_motors msg_on" "\<not> aux_enable_motors msg_off"
  by (simp_all add: msg_on_def msg_off_def)

section \<open>The conversion reads neither the counter nor the flags\<close>

lemma crazy_vel_cmd_frame:
  "crazy_vel_cmd (s\<lparr>so3_cmd_set := a, armed := b, motor_status := m\<rparr>) msg = crazy_vel_cmd s msg"
  "crazy_vel_cmd (s\<lparr>so3_cmd_set := a, motor_status := m\<rparr>) msg = crazy_vel_cmd s msg"
  by (simp_all add: crazy_vel_cmd_def roll_rate_des_def pitch_rate_des_def roll_des_def
      pitch_des_def R_des_new_def yaw_cur_def yaw_rate_des_def e_yaw_def thrust_pwm_def
      thrust_f_def thrust_newtons_def)

lemma linear_z_crazy_vel_cmd:
  "linear_z (crazy_vel_cmd s msg) =
     CLAMP (thrust_pwm s msg) (Fin (to_float (real_of_int (thrust_pwm_min s))))
       (Fin (to_float (real_of_int (thrust_pwm_max s))))"
  by (simp add: crazy_vel_cmd_def Let_def)

section \<open>Motors disabled\<close>

text \<open>
  Claim C5. A command with \<open>enable_motors\<close> false sets \<open>motor_status_\<close> to 0, publishes
  one all-zero message on \<open>cmd_vel\<close> and nothing else, and stores the command and its
  timestamp; on a brushless vehicle that is armed it then sends one disarm request, clears
  \<open>armed_\<close>, and reboots: the power-down request, a sleep of half a second, the power-up
  request. Nothing goes to \<open>cmd_vel_fast\<close>: the conversion does not run.
\<close>

theorem disable_motors_sequence:
  assumes "\<not> aux_enable_motors msg"
  shows "so3_cmd_callback srv msg s =
     (s\<lparr>so3_cmd_set := True, motor_status := 0, last_so3_cmd := msg,
        last_so3_cmd_time := header_stamp msg,
        armed := (if is_brushless s \<and> armed s then False else armed s)\<rparr>,
      Publish crazy_cmd_vel_pub Twist_new #
        (if is_brushless s \<and> armed s
         then [Call (arming_packet False) (srv 0), Call (reboot_packet 2) (srv 1), Sleep (1 / 2),
               Call (reboot_packet 3) (srv 2)]
         else []))"
  using assms by (simp add: so3_cmd_callback_def send_arming_request_def reboot_def Let_def)

text \<open>Claim C5 on the armed sample vehicle, with a service that answers every call.\<close>

theorem disable_motors_sequence_witness:
  "\<not> aux_enable_motors msg_off \<and>
   snd (so3_cmd_callback srv_ok msg_off node3) =
     [Publish crazy_cmd_vel_pub Twist_new, Call (arming_packet False) True,
      Call (reboot_packet 2) True, Sleep (1 / 2), Call (reboot_packet 3) True] \<and>
   motor_status (fst (so3_cmd_callback srv_ok msg_off node3)) = 0 \<and>
   last_so3_cmd (fst (so3_cmd_callback srv_ok msg_off node3)) = msg_off \<and>
   \<not> armed (fst (so3_cmd_callback srv_ok msg_off node3))"
proof -
  have h: "\<not> aux_enable_motors msg_off"
    by (rule msg_fields)
  have c: "is_brushless node3 \<and> armed node3"
    by (simp add: node3_fields)
  show ?thesis
    unfolding disable_motors_sequence [OF h, of srv_ok node3]
    using h c by (simp add: srv_ok_def)
qed

section \<open>Motors enabled: the spin-up\<close>

lemma so3_cmd_callback_spin_min:
  assumes "aux_enable_motors msg" "3 \<le> sint (motor_status s)" "sint (motor_status s) < 10"
  shows "snd (so3_cmd_callback srv msg s) = arm_actions srv s @
             [Publish crazy_cmd_vel_pub
                (Twist_new\<lparr>linear_z := Fin (real_of_int (thrust_pwm_min s))\<rparr>),
              Publish crazy_fast_cmd_vel_pub (crazy_vel_cmd s msg)]"
  using assms
  by (simp add: so3_cmd_callback_def send_arming_request_def Let_def arm_actions_def
      crazy_vel_cmd_frame)

lemma so3_cmd_callback_spin_zero:
  assumes "aux_enable_motors msg" "sint (motor_status s) < 3"
  shows "so3_cmd_callback srv msg s =
             (s\<lparr>so3_cmd_set := True,
                armed := (if is_brushless s \<and> \<not> armed s then True else armed s),
                last_so3_cmd := msg,
                last_so3_cmd_time := header_stamp msg, motor_status := motor_status s + 1\<rparr>,
              arm_actions srv s @ [Publish crazy_cmd_vel_pub Twist_new])"
  using assms
  by (simp add: so3_cmd_callback_def send_arming_request_def Let_def arm_actions_def)

text \<open>
  Claim C4. A command with \<open>enable_motors\<close> true that finds \<open>motor_status_\<close> in 3..9
  publishes, after the arming request if one is due, the minimum-thrust message on
  \<open>cmd_vel\<close> and then, in the same call, the converted command on \<open>cmd_vel_fast\<close>. With
  \<open>motor_status_\<close> below 3 it publishes the all-zero message on \<open>cmd_vel\<close> only, stores
  the command, counts, and returns before the conversion.
\<close>

theorem spin_up_outputs:
  assumes "aux_enable_motors msg"
  shows "(3 \<le> sint (motor_status s) \<and> sint (motor_status s) < 10 \<longrightarrow>
           snd (so3_cmd_callback srv msg s) = arm_actions srv s @
             [Publish crazy_cmd_vel_pub
                (Twist_new\<lparr>linear_z := Fin (real_of_int (thrust_pwm_min s))\<rparr>),
              Publish crazy_fast_cmd_vel_pub (crazy_vel_cmd s msg)]) \<and>
         (sint (motor_status s) < 3 \<longrightarrow>
           so3_cmd_callback srv msg s =
             (s\<lparr>so3_cmd_set := True,
                armed := (if is_brushless s \<and> \<not> armed s then True else armed s),
                last_so3_cmd := msg,
                last_so3_cmd_time := header_stamp msg, motor_status := motor_status s + 1\<rparr>,
              arm_actions srv s @ [Publish crazy_cmd_vel_pub Twist_new]))"
proof (intro conjI impI)
  assume "3 \<le> sint (motor_status s) \<and> sint (motor_status s) < 10"
  then show "snd (so3_cmd_callback srv msg s) = arm_actions srv s @
             [Publish crazy_cmd_vel_pub
                (Twist_new\<lparr>linear_z := Fin (real_of_int (thrust_pwm_min s))\<rparr>),
              Publish crazy_fast_cmd_vel_pub (crazy_vel_cmd s msg)]"
    using assms by (intro so3_cmd_callback_spin_min) simp_all
next
  assume "sint (motor_status s) < 3"
  then show "so3_cmd_callback srv msg s =
             (s\<lparr>so3_cmd_set := True,
                armed := (if is_brushless s \<and> \<not> armed s then True else armed s),
                last_so3_cmd := msg,
                last_so3_cmd_time := header_stamp msg, motor_status := motor_status s + 1\<rparr>,
              arm_actions srv s @ [Publish crazy_cmd_vel_pub Twist_new])"
    using assms by (intro so3_cmd_callback_spin_zero)
qed

text \<open>Claim C4 on the sample vehicle, at a count of 3 and at a count of 0.\<close>

theorem spin_up_outputs_witness:
  "aux_enable_motors msg_on \<and> 3 \<le> sint (motor_status node3) \<and> sint (motor_status node3) < 10 \<and>
   snd (so3_cmd_callback srv_ok msg_on node3) =
     [Publish crazy_cmd_vel_pub (Twist_new\<lparr>linear_z := Fin 10000\<rparr>),
      Publish crazy_fast_cmd_vel_pub (crazy_vel_cmd node3 msg_on)] \<and>
   sint (motor_status node0) < 3 \<and>
   snd (so3_cmd_callback srv_ok msg_on node0) =
     [Call (arming_packet True) True, Publish crazy_cmd_vel_pub Twist_new]"
proof -
  have a: "3 \<le> sint (motor_status node3) \<and> sint (motor_status node3) < 10"
    by (simp add: node3_fields)
  have b: "sint (motor_status node0) < 3"
    by (simp add: node0_fields)
  have c: "arm_actions srv_ok node3 = []" "arm_actions srv_ok node0 = [Call (arming_packet True) True]"
    "real_of_int (thrust_pwm_min node3) = 10000"
    by (simp_all add: arm_actions_def srv_ok_def node3_fields node0_fields)
  from spin_up_outputs [OF msg_fields(1), of node3 srv_ok] a
  have d: "snd (so3_cmd_callback srv_ok msg_on node3) = arm_actions srv_ok node3 @
             [Publish crazy_cmd_vel_pub
                (Twist_new\<lparr>linear_z := Fin (real_of_int (thrust_pwm_min node3))\<rparr>),
              Publish crazy_fast_cmd_vel_pub (crazy_vel_cmd node3 msg_on)]"
    by (rule conjunct1 [THEN mp])
  from spin_up_outputs [OF msg_fields(1), of node0 srv_ok] b
  have e: "so3_cmd_callback srv_ok msg_on node0 =
             (node0\<lparr>so3_cmd_set := True,
                armed := (if is_brushless node0 \<and> \<not> armed node0 then True else armed node0),
                last_so3_cmd := msg_on,
                last_so3_cmd_time := header_stamp msg_on, motor_status := motor_status node0 + 1\<rparr>,
              arm_actions srv_ok node0 @ [Publish crazy_cmd_vel_pub Twist_new])"
    by (rule conjunct2 [THEN mp])
  have e': "snd (so3_cmd_callback srv_ok msg_on node0) =
      arm_actions srv_ok node0 @ [Publish crazy_cmd_vel_pub Twist_new]"
    by (subst e) (rule snd_conv)
  show ?thesis
    using a b msg_fields(1) by (simp only: d e' c append_Nil append_Cons simp_thms)
qed

section \<open>The published thrust\<close>











section \<open>The thrust for a force that is not positive\<close>

lemma thrust_f_floor: "thrust_newtons s msg \<le> 0 \<Longrightarrow> thrust_f s msg = 0"
  by (simp add: thrust_f_def max_def)

lemma linear_z_floor:
  assumes "thrust_newtons s msg \<le> 0"
  shows "linear_z (crazy_vel_cmd s msg) =
           CLAMP (dbl_map (\<lambda>t. t * to_float (real_of_int (thrust_pwm_max s)))
                    (dbl_map (\<lambda>r. c1 s + c2 s * r) (std_sqrt (c3 s))))
                 (Fin (to_float (real_of_int (thrust_pwm_min s)))) (Fin (to_float (real_of_int (thrust_pwm_max s))))"
  by (simp add: linear_z_crazy_vel_cmd thrust_pwm_def thrust_f_floor [OF assms])

lemma so3_cmd_callback_last:
  assumes "aux_enable_motors msg" "3 \<le> sint (motor_status s)"
  shows "last (snd (so3_cmd_callback srv msg s)) = Publish crazy_fast_cmd_vel_pub (crazy_vel_cmd s msg)"
  using assms
  by (simp add: so3_cmd_callback_def send_arming_request_def Let_def crazy_vel_cmd_frame)

lemma thrust_newtons_node3: "thrust_newtons node3 msg_on = - 1"
  by (simp add: thrust_newtons_def toRotationMatrix_def Let_def node3_simps)

text \<open>
  Claim C6, amended. When the commanded force along the body z axis is zero or negative,
  the force is replaced by 0 and the command is converted and published like any other
  (given the motors are enabled and the count is at least 3); its thrust is
  \<open>CLAMP((c1 + c2 * sqrt(c3)) * thrust_pwm_max, thrust_pwm_min, thrust_pwm_max)\<close>,
  the same for all such forces. The factor \<open>thrust_pwm_max\<close> of line 296 is part of it;
  the two limits enter as the \<open>float\<close>s that the \<open>int\<close>s convert to.
\<close>

theorem zero_force_floor:
  assumes "thrust_newtons s msg \<le> 0"
  shows "linear_z (crazy_vel_cmd s msg) =
           CLAMP (dbl_map (\<lambda>t. t * to_float (real_of_int (thrust_pwm_max s)))
                    (dbl_map (\<lambda>r. c1 s + c2 s * r) (std_sqrt (c3 s))))
                 (Fin (to_float (real_of_int (thrust_pwm_min s)))) (Fin (to_float (real_of_int (thrust_pwm_max s)))) \<and>
         (aux_enable_motors msg \<and> 3 \<le> sint (motor_status s) \<longrightarrow>
            last (snd (so3_cmd_callback srv msg s)) =
              Publish crazy_fast_cmd_vel_pub (crazy_vel_cmd s msg))"
  using linear_z_floor [OF assms] so3_cmd_callback_last [of msg s srv] by blast

text \<open>
  Claim C6, amended, on the sample vehicle (\<open>c1 = 0\<close>, \<open>c2 = 1/4\<close>, \<open>c3 = 4\<close>, limits
  10000 and 60000) with a force of -1 N: the thrust is 30000.
\<close>

theorem zero_force_floor_witness:
  "thrust_newtons node3 msg_on \<le> 0 \<and> aux_enable_motors msg_on \<and> 3 \<le> sint (motor_status node3) \<and>
   linear_z (crazy_vel_cmd node3 msg_on) = Fin 30000 \<and>
   last (snd (so3_cmd_callback srv_ok msg_on node3)) =
     Publish crazy_fast_cmd_vel_pub (crazy_vel_cmd node3 msg_on)"
proof -
  have h: "thrust_newtons node3 msg_on \<le> 0"
    by (simp add: thrust_newtons_node3)
  have k: "aux_enable_motors msg_on \<and> 3 \<le> sint (motor_status node3)"
    by (simp add: msg_fields node3_fields)
  have v: "CLAMP (dbl_map (\<lambda>t. t * to_float (real_of_int (thrust_pwm_max node3)))
                    (dbl_map (\<lambda>r. c1 node3 + c2 node3 * r) (std_sqrt (c3 node3))))
                 (Fin (to_float (real_of_int (thrust_pwm_min node3))))
                 (Fin (to_float (real_of_int (thrust_pwm_max node3)))) = Fin 30000"
    by (simp add: node3_fields std_sqrt_def CLAMP_def to_float_10000 to_float_60000)
  from zero_force_floor [OF h, of srv_ok] h k v show ?thesis
    by metis
qed

text \<open>
  Claim C6 as it is worded fails there: the formula without the factor gives
  \<open>clamp(1/2, 10000, 60000) = 10000\<close>, the code publishes 30000.
\<close>

theorem zero_force_floor_unscaled:
  "thrust_newtons node3 msg_on \<le> 0 \<and>
   linear_z (crazy_vel_cmd node3 msg_on) \<noteq> zero_force_floor_spec node3"
proof -
  have h: "thrust_newtons node3 msg_on \<le> 0"
    by (simp add: thrust_newtons_node3)
  have "linear_z (crazy_vel_cmd node3 msg_on) = Fin 30000"
    by (simp add: linear_z_floor [OF h] node3_fields std_sqrt_def CLAMP_def to_float_10000
      to_float_60000)
  moreover have "zero_force_floor_spec node3 = Fin 10000"
    by (simp add: zero_force_floor_spec_def node3_fields std_sqrt_def CLAMP_def)
  ultimately show ?thesis
    using h by simp
qed

section \<open>The counter \<open>motor_status_\<close>\<close>

lemma motor_status_enabled:
  "aux_enable_motors msg \<Longrightarrow>
     motor_status (fst (so3_cmd_callback srv msg s)) = motor_status s + 1"
  by (simp add: so3_cmd_callback_def Let_def split_def)

lemma motor_status_disabled:
  "\<not> aux_enable_motors msg \<Longrightarrow> motor_status (fst (so3_cmd_callback srv msg s)) = 0"
  by (simp add: so3_cmd_callback_def Let_def split_def)

lemma sint_succ:
  assumes "sint (w :: 32 word) < 2147483647"
  shows "sint (w + 1) = sint w + 1"
proof -
  have "- (2 ^ 31) \<le> sint w"
    using sint_ge [of w] by simp
  then have "signed_take_bit 31 (sint w + 1) = sint w + 1"
    using assms by (intro signed_take_bit_int_eq_self) simp_all
  then show ?thesis
    by (simp add: sint_word_ariths)
qed

lemma ready_counter_inert:
  assumes "aux_enable_motors msg" "10 \<le> sint (motor_status s)" "10 \<le> sint m"
  shows "so3_cmd_callback srv msg (s\<lparr>motor_status := m\<rparr>) =
           (fst (so3_cmd_callback srv msg s)\<lparr>motor_status := m + 1\<rparr>,
            snd (so3_cmd_callback srv msg s))"
  using assms
  by (simp add: so3_cmd_callback_def send_arming_request_def Let_def crazy_vel_cmd_frame split_def)

text \<open>
  Claim C8, amended. Every command with the motors disabled sets \<open>motor_status_\<close> to
  0. Every command with the motors enabled adds one to the 32-bit counter, at or above 10
  as well as below: the counter does not stop at 10. Whenever the counter is below
  \<open>INT_MAX\<close> = 2147483647, its value as an integer grows by exactly one; nothing is
  said of the integer at \<open>INT_MAX\<close>, where the increment is undefined in C++. What stops
  at 10 is the effect of the counter: with it at 10 or more, the actions of the callback
  and the rest of the state do not depend on its value.
\<close>

theorem motor_status_counter:
  "(\<not> aux_enable_motors msg \<longrightarrow> motor_status (fst (so3_cmd_callback srv msg s)) = 0) \<and>
   (aux_enable_motors msg \<longrightarrow>
      motor_status (fst (so3_cmd_callback srv msg s)) = motor_status s + 1) \<and>
   (aux_enable_motors msg \<and> sint (motor_status s) < 2147483647 \<longrightarrow>
      sint (motor_status (fst (so3_cmd_callback srv msg s))) = sint (motor_status s) + 1) \<and>
   (aux_enable_motors msg \<and> 10 \<le> sint (motor_status s) \<and> 10 \<le> sint m \<longrightarrow>
      so3_cmd_callback srv msg (s\<lparr>motor_status := m\<rparr>) =
        (fst (so3_cmd_callback srv msg s)\<lparr>motor_status := m + 1\<rparr>,
         snd (so3_cmd_callback srv msg s)))"
proof (intro conjI impI)
  assume "\<not> aux_enable_motors msg"
  then show "motor_status (fst (so3_cmd_callback srv msg s)) = 0"
    by (rule motor_status_disabled)
next
  assume "aux_enable_motors msg"
  then show "motor_status (fst (so3_cmd_callback srv msg s)) = motor_status s + 1"
    by (rule motor_status_enabled)
next
  assume a: "aux_enable_motors msg \<and> sint (motor_status s) < 2147483647"
  then have "motor_status (fst (so3_cmd_callback srv msg s)) = motor_status s + 1"
    by (intro motor_status_enabled) simp
  with a show "sint (motor_status (fst (so3_cmd_callback srv msg s))) = sint (motor_status s) + 1"
    by (simp add: sint_succ)
next
  assume "aux_enable_motors msg \<and> 10 \<le> sint (motor_status s) \<and> 10 \<le> sint m"
  then show "so3_cmd_callback srv msg (s\<lparr>motor_status := m\<rparr>) =
        (fst (so3_cmd_callback srv msg s)\<lparr>motor_status := m + 1\<rparr>,
         snd (so3_cmd_callback srv msg s))"
    by (intro ready_counter_inert) simp_all
qed

text \<open>Claim C8, amended, on the sample vehicle after ten commands.\<close>

theorem motor_status_counter_witness:
  "\<not> aux_enable_motors msg_off \<and> motor_status (fst (so3_cmd_callback srv_ok msg_off node10)) = 0 \<and>
   aux_enable_motors msg_on \<and> sint (motor_status node10) < 2147483647 \<and>
   10 \<le> sint (motor_status node10) \<and> 10 \<le> sint (11 :: 32 word) \<and>
   sint (motor_status (fst (so3_cmd_callback srv_ok msg_on node10))) = 11 \<and>
   so3_cmd_callback srv_ok msg_on (node10\<lparr>motor_status := 11\<rparr>) =
     (fst (so3_cmd_callback srv_ok msg_on node10)\<lparr>motor_status := 11 + 1\<rparr>,
      snd (so3_cmd_callback srv_ok msg_on node10))"
proof -
  have a: "sint (motor_status node10) = 10"
    by (simp add: node10_fields)
  have b: "10 \<le> sint (11 :: 32 word)"
    by simp
  from motor_status_counter [of msg_off srv_ok node10 11] msg_fields(2)
  have c: "motor_status (fst (so3_cmd_callback srv_ok msg_off node10)) = 0"
    by blast
  have a1: "sint (motor_status node10) < 2147483647" and a2: "10 \<le> sint (motor_status node10)"
    by (simp_all add: a)
  from motor_status_counter [of msg_on srv_ok node10 11] msg_fields(1) a1
  have d: "sint (motor_status (fst (so3_cmd_callback srv_ok msg_on node10))) = sint (motor_status node10) + 1"
    by blast
  from motor_status_counter [of msg_on srv_ok node10 11] msg_fields(1) a2 b
  have e: "so3_cmd_callback srv_ok msg_on (node10\<lparr>motor_status := 11\<rparr>) =
     (fst (so3_cmd_callback srv_ok msg_on node10)\<lparr>motor_status := 11 + 1\<rparr>,
      snd (so3_cmd_callback srv_ok msg_on node10))"
    by blast
  from d a have d': "sint (motor_status (fst (so3_cmd_callback srv_ok msg_on node10))) = 11"
    by simp
  show ?thesis
    using msg_fields a1 a2 b c d' e by blast
qed

text \<open>
  Claim C8 as it is worded fails at a count of 10: the next command with the motors
  enabled takes the counter to 11.
\<close>

theorem motor_status_grows_past_ten:
  "10 \<le> sint (motor_status node10) \<and>
   sint (motor_status node10) < sint (motor_status (fst (so3_cmd_callback srv_ok msg_on node10)))"
proof -
  have "motor_status (fst (so3_cmd_callback srv_ok msg_on node10)) = motor_status node10 + 1"
    using msg_fields(1) by (rule motor_status_enabled)
  then show ?thesis
    by (simp add: node10_fields)
qed

section \<open>Odometry\<close>















section \<open>The timeout\<close>

lemma so3_cmd_callback_acts: "snd (so3_cmd_callback srv msg s) \<noteq> []"
  by (simp add: so3_cmd_callback_def Let_def split_def)

lemma odom_update_cmd_frame:
  "so3_cmd_set (odom_update od s) = so3_cmd_set s"
  "last_so3_cmd_time (odom_update od s) = last_so3_cmd_time s"
  "so3_cmd_timeout (odom_update od s) = so3_cmd_timeout s"
  "last_so3_cmd (odom_update od s) = last_so3_cmd s"
  by (simp_all add: odom_update_def Let_def)

lemma odom_callback_timed_out:
  "odom_callback srv now od s =
     (if timed_out now s then so3_cmd_callback srv (last_so3_cmd s) (odom_update od s)
      else (odom_update od s, []))"
  by (simp add: odom_callback_def Let_def odom_update_cmd_frame timed_out_def)

lemma timed_out_default:
  assumes "so3_cmd_timeout s = double_0_1"
  shows "timed_out now s \<longleftrightarrow> so3_cmd_set s \<and> 100000000 \<le> now - last_so3_cmd_time s"
  using assms by (simp add: timed_out_def toSec_default_timeout)

text \<open>
  Claim C3, amended. An odometry sample makes the nodelet act (publish, call the service)
  if and only if a command has been received before and the age of the stored command is
  at least \<open>so3_cmd_timeout_\<close>. The age is the \<open>double\<close> that \<open>Duration::toSec\<close> makes
  of the difference between the clock \<open>ros::Time::now()\<close>, read while the sample is
  handled, and the timestamp of the stored command; the timestamp of the sample plays no
  part. With the default timeout, the \<open>double\<close> literal \<open>0.1\<close>, that is exactly when
  the clock is at least 100000000 ns past the timestamp of the command. Then the nodelet
  runs \<open>so3_cmd_callback\<close> on the stored command itself, in the state that the sample
  has just updated; otherwise it only updates that state.
\<close>

theorem odom_callback_reissue:
  "(snd (odom_callback srv now od s) \<noteq> [] \<longleftrightarrow> timed_out now s) \<and>
   odom_callback srv now od s =
     (if timed_out now s then so3_cmd_callback srv (last_so3_cmd s) (odom_update od s)
      else (odom_update od s, [])) \<and>
   (so3_cmd_timeout s = double_0_1 \<longrightarrow>
      (timed_out now s \<longleftrightarrow> so3_cmd_set s \<and> 100000000 \<le> now - last_so3_cmd_time s))"
  using timed_out_default [of s now]
  by (simp add: odom_callback_timed_out so3_cmd_callback_acts)

text \<open>
  Claim C3, amended, on the sample vehicle: command stamped 0, default timeout, and the
  clock at 1 s, then at 0.05 s, then at 0.1 s.
\<close>

theorem odom_callback_reissue_witness:
  "so3_cmd_timeout node3 = double_0_1 \<and>
   timed_out 1000000000 node3 \<and> snd (odom_callback srv_ok 1000000000 odom0 node3) \<noteq> [] \<and>
   odom_callback srv_ok 1000000000 odom0 node3 =
     so3_cmd_callback srv_ok msg_on (odom_update odom0 node3) \<and>
   \<not> timed_out 50000000 node3 \<and> snd (odom_callback srv_ok 50000000 odom0 node3) = [] \<and>
   timed_out 100000000 node3 \<and> snd (odom_callback srv_ok 100000000 odom0 node3) \<noteq> []"
proof -
  have d: "so3_cmd_timeout node3 = double_0_1"
    by (simp add: node3_fields)
  have f: "so3_cmd_set node3" "last_so3_cmd_time node3 = 0"
    by (simp_all add: node3_fields)
  have l: "last_so3_cmd node3 = msg_on"
    by (simp add: node3_fields)
  note t = odom_callback_reissue [of srv_ok 1000000000 odom0 node3]
  note u = odom_callback_reissue [of srv_ok 50000000 odom0 node3]
  note w = odom_callback_reissue [of srv_ok 100000000 odom0 node3]
  from t d have "timed_out 1000000000 node3 \<longleftrightarrow>
      so3_cmd_set node3 \<and> 100000000 \<le> 1000000000 - last_so3_cmd_time node3"
    by blast
  then have h: "timed_out 1000000000 node3"
    by (simp add: f)
  from u d have "timed_out 50000000 node3 \<longleftrightarrow>
      so3_cmd_set node3 \<and> 100000000 \<le> 50000000 - last_so3_cmd_time node3"
    by blast
  then have k: "\<not> timed_out 50000000 node3"
    by (simp add: f)
  from w d have "timed_out 100000000 node3 \<longleftrightarrow>
      so3_cmd_set node3 \<and> 100000000 \<le> 100000000 - last_so3_cmd_time node3"
    by blast
  then have j: "timed_out 100000000 node3"
    by (simp add: f)
  from t h have r1: "snd (odom_callback srv_ok 1000000000 odom0 node3) \<noteq> []"
    by blast
  from t have "odom_callback srv_ok 1000000000 odom0 node3 =
     (if timed_out 1000000000 node3
      then so3_cmd_callback srv_ok (last_so3_cmd node3) (odom_update odom0 node3)
      else (odom_update odom0 node3, []))"
    by blast
  then have 2: "odom_callback srv_ok 1000000000 odom0 node3 =
       so3_cmd_callback srv_ok (last_so3_cmd node3) (odom_update odom0 node3)"
    by (simp only: h if_True)
  from u k have r3: "snd (odom_callback srv_ok 50000000 odom0 node3) = []"
    by blast
  from w j have r4: "snd (odom_callback srv_ok 100000000 odom0 node3) \<noteq> []"
    by blast
  from 2 have r2: "odom_callback srv_ok 1000000000 odom0 node3 =
       so3_cmd_callback srv_ok msg_on (odom_update odom0 node3)"
    by (simp only: l)
  show ?thesis
    using d h k j r1 r2 r3 r4 by blast
qed

text \<open>
  Claim C3 as it is worded fails when the clock and the timestamp of the sample differ:
  a sample stamped 0, like the stored command, handled at 1 s, is followed by a re-issue.
\<close>

theorem reissue_not_by_sample_stamp:
  "snd (odom_callback srv_ok 1000000000 odom0 node3) \<noteq> [] \<and>
   \<not> stale_by_sample_stamp odom0 node3"
proof -
  have "timed_out 1000000000 node3"
    by (simp add: timed_out_def toSec_1s node3_fields double_0_1_def)
  then have "snd (odom_callback srv_ok 1000000000 odom0 node3) \<noteq> []"
    by (simp add: odom_callback_timed_out so3_cmd_callback_acts)
  moreover have "\<not> stale_by_sample_stamp odom0 node3"
    by (simp add: stale_by_sample_stamp_def seconds_exact_def node3_fields odom0_def
        double_0_1_def)
  ultimately show ?thesis
    by blast
qed

section \<open>The flag \<open>armed_\<close>\<close>

lemma arming_packet_data: "pkt_data (arming_packet arm) ! 1 = (if arm then 1 else 0)"
  by (simp add: arming_packet_def)

lemma arming_packet_neq [simp]:
  "arming_packet True \<noteq> arming_packet False"
  "arming_packet False \<noteq> arming_packet True"
  using arming_packet_data [of True] arming_packet_data [of False] by auto

lemma reboot_packet_neq [simp]: "reboot_packet c \<noteq> arming_packet b"
  by (simp add: arming_packet_def reboot_packet_def crtpPacket_new_def)

lemma arming_state_append:
  "arming_state b (xs @ ys) = arming_state (arming_state b xs) ys"
  by (induction b xs rule: arming_state.induct) simp_all

lemma so3_cmd_callback_armed:
  "armed (fst (so3_cmd_callback srv msg s)) =
     arming_state (armed s) (snd (so3_cmd_callback srv msg s))"
  by (simp add: so3_cmd_callback_def send_arming_request_def reboot_def Let_def split_def)

lemma odom_update_armed: "armed (odom_update od s) = armed s"
  by (simp add: odom_update_def Let_def)

lemma deliver_armed:
  "armed (fst (deliver e s)) = arming_state (armed s) (snd (deliver e s))"
  by (cases e) (simp_all add: so3_cmd_callback_armed odom_callback_def Let_def odom_update_armed)

lemma spin_armed:
  "armed (fst (spin evs s)) = arming_state (armed s) (snd (spin evs s))"
proof (induction evs arbitrary: s)
  case Nil
  show ?case by simp
next
  case (Cons e evs)
  show ?case
    using Cons.IH [of "fst (deliver e s)"] deliver_armed [of e s]
    by (simp add: split_def Let_def arming_state_append)
qed

text \<open>
  If the requests of a trace end in the state "armed", then either that was the state
  before and no request to disarm was made, or the trace holds a request to arm that no
  request to disarm follows.
\<close>

lemma arming_state_request:
  assumes "arming_state b acts"
  shows "(b \<and> \<not> list_ex is_disarm acts) \<or>
         (\<exists>pre ok post. acts = pre @ Call (arming_packet True) ok # post \<and>
                        \<not> list_ex is_disarm post)"
  using assms
proof (induction acts arbitrary: b)
  case Nil
  then show ?case by simp
next
  case (Cons a acts)
  define b' where "b' =
    (case a of
       Call p ok \<Rightarrow> (if p = arming_packet True then True
                     else if p = arming_packet False then False else b)
     | _ \<Rightarrow> b)"
  have b': "arming_state b (a # acts) = arming_state b' acts"
    by (cases a) (simp_all add: b'_def)
  have keep: "b' = b" if "\<not> is_disarm a" "\<forall>ok. a \<noteq> Call (arming_packet True) ok"
    using that by (cases a) (auto simp: b'_def)
  have dis: "\<not> b'" if "is_disarm a"
    using that by (cases a) (auto simp: b'_def)
  from Cons.prems b' have "arming_state b' acts" by simp
  from Cons.IH [OF this] show ?case
  proof
    assume l: "b' \<and> \<not> list_ex is_disarm acts"
    show ?thesis
    proof (cases "\<exists>ok. a = Call (arming_packet True) ok")
      case True
      then obtain ok where "a # acts = [] @ Call (arming_packet True) ok # acts" by auto
      with l show ?thesis by blast
    next
      case False
      from l dis have "\<not> is_disarm a" by blast
      with False keep l show ?thesis by simp
    qed
  next
    assume "\<exists>pre ok post. acts = pre @ Call (arming_packet True) ok # post \<and>
                           \<not> list_ex is_disarm post"
    then obtain pre ok post where "acts = pre @ Call (arming_packet True) ok # post"
      and np: "\<not> list_ex is_disarm post" by blast
    then have "a # acts = (a # pre) @ Call (arming_packet True) ok # post" by simp
    with np show ?thesis by blast
  qed
qed

lemma onInit_disarmed: "onInit p m = Some s \<Longrightarrow> \<not> armed s"
  by (auto simp: onInit_def Let_def split: if_splits)

lemma armed_optimistic:
  "aux_enable_motors msg \<Longrightarrow> is_brushless s \<Longrightarrow> armed (fst (so3_cmd_callback srv msg s))"
  by (simp add: so3_cmd_callback_def Let_def split_def)

text \<open>
  Claim C9, amended. In every state that the nodelet reaches from \<open>onInit\<close>, \<open>armed_\<close>
  true implies that a request to arm was sent and that no request to disarm was sent
  after it, whatever the service answered to either. The flag follows the requests, not
  their outcomes: on a brushless vehicle a command with the motors enabled leaves the
  flag set for every answer of the service.
\<close>

theorem armed_follows_requests:
  assumes "onInit p m = Some s0" and "spin evs s0 = (s, acts)"
  shows "(armed s \<longrightarrow>
           (\<exists>pre ok post. acts = pre @ Call (arming_packet True) ok # post \<and>
                          \<not> list_ex is_disarm post)) \<and>
         (aux_enable_motors msg \<and> is_brushless s \<longrightarrow>
            armed (fst (so3_cmd_callback srv msg s)))"
proof -
  have "armed s = arming_state False acts"
    using spin_armed [of evs s0] onInit_disarmed [OF assms(1)] assms(2) by simp
  then have "armed s \<longrightarrow> (\<exists>pre ok post. acts = pre @ Call (arming_packet True) ok # post \<and>
                          \<not> list_ex is_disarm post)"
    using arming_state_request [of False acts] by simp
  then show ?thesis
    using armed_optimistic [of msg s srv] by blast
qed

text \<open>
  Claim C9, amended, on the sample vehicle: one command with the motors enabled while the
  service is down.
\<close>

theorem armed_follows_requests_witness:
  "onInit params0 mem0 = Some node0 \<and>
   armed (fst (spin [so3_cmd srv_down msg_on] node0)) \<and>
   (\<exists>pre ok post.
      snd (spin [so3_cmd srv_down msg_on] node0) = pre @ Call (arming_packet True) ok # post \<and>
      \<not> list_ex is_disarm post) \<and>
   aux_enable_motors msg_on \<and> is_brushless (fst (spin [so3_cmd srv_down msg_on] node0)) \<and>
   armed (fst (so3_cmd_callback srv_down msg_on (fst (spin [so3_cmd srv_down msg_on] node0))))"
proof -
  let ?r = "spin [so3_cmd srv_down msg_on] node0"
  have e: "?r = (fst ?r, snd ?r)"
    by simp
  have a: "armed (fst ?r)" and b: "is_brushless (fst ?r)"
    by (simp_all add: so3_cmd_callback_def Let_def split_def msg_fields node0_fields)
  from armed_follows_requests [OF onInit_params0 e, of msg_on srv_down] a b msg_fields(1)
  show ?thesis
    using onInit_params0 by blast
qed

text \<open>
  Claim C9 as it is worded fails there: the flag is set, and the only request, the one to
  arm, has failed.
\<close>

theorem armed_after_failed_request:
  "armed (fst (so3_cmd_callback srv_down msg_on node0)) \<and>
   requests (snd (so3_cmd_callback srv_down msg_on node0)) = [Call (arming_packet True) False]"
proof -
  have "so3_cmd_callback srv_down msg_on node0 =
     (node0\<lparr>so3_cmd_set := True,
        armed := (if is_brushless node0 \<and> \<not> armed node0 then True else armed node0),
        last_so3_cmd := msg_on, last_so3_cmd_time := header_stamp msg_on,
        motor_status := motor_status node0 + 1\<rparr>,
      arm_actions srv_down node0 @ [Publish crazy_cmd_vel_pub Twist_new])"
    by (intro so3_cmd_callback_spin_zero) (simp_all add: msg_fields node0_fields)
  then show ?thesis
    by (simp add: arm_actions_def srv_down_def node0_fields)
qed

section \<open>The yaw error\<close>

text \<open>
  \<open>M_PI\<close> lies strictly below \<open>pi\<close>, and the \<open>float\<close> nearest to it, 13176795 / 2^22
  (3.1415927), above: the sine of a sixth of each is compared with \<open>1/2\<close> by the Maclaurin
  polynomial with its remainder.
\<close>

lemma sum_upto_17:
  "(\<Sum>m<17. f m) = f 0 + f 1 + f 2 + f 3 + f 4 + f 5 + f 6 + f 7 + f 8 + f 9 + f 10
     + f 11 + f 12 + f 13 + f 14 + f 15 + f 16"
  for f :: "nat \<Rightarrow> real"
  by (simp add: numeral_eq_Suc)

lemma sum_upto_11:
  "(\<Sum>m<11. f m) = f 0 + f 1 + f 2 + f 3 + f 4 + f 5 + f 6 + f 7 + f 8 + f 9 + f 10"
  for f :: "nat \<Rightarrow> real"
  by (simp add: numeral_eq_Suc)

lemma sin_sixth_M_PI: "sin (M_PI / 6) < 1 / 2"
proof -
  define x :: real where "x = M_PI / 6"
  have b: "\<bar>sin x - (\<Sum>m<17. sin_coeff m * x ^ m)\<bar> \<le> inverse (fact 17) * \<bar>x\<bar> ^ 17"
    by (rule Maclaurin_sin_bound)
  have c: "(\<Sum>m<17. sin_coeff m * x ^ m) + inverse (fact 17) * \<bar>x\<bar> ^ 17 < 1 / 2"
    unfolding x_def M_PI_def sum_upto_17
    by (simp add: sin_coeff_def fact_numeral power_divide)
  from b c show ?thesis
    unfolding x_def by linarith
qed

lemma sin_sixth_float_pi: "1 / 2 < sin (13176795 / 4194304 / 6 :: real)"
proof -
  define x :: real where "x = 13176795 / 4194304 / 6"
  have b: "\<bar>sin x - (\<Sum>m<11. sin_coeff m * x ^ m)\<bar> \<le> inverse (fact 11) * \<bar>x\<bar> ^ 11"
    by (rule Maclaurin_sin_bound)
  have c: "1 / 2 < (\<Sum>m<11. sin_coeff m * x ^ m) - inverse (fact 11) * \<bar>x\<bar> ^ 11"
    unfolding x_def sum_upto_11
    by (simp add: sin_coeff_def fact_numeral power_divide)
  from b c show ?thesis
    unfolding x_def by linarith
qed

lemma M_PI_less_pi: "M_PI < pi"
proof -
  have "sin (M_PI / 6) < sin (pi / 6)"
    using sin_sixth_M_PI by (simp add: sin_30)
  moreover have "- (pi / 2) \<le> M_PI / 6" "M_PI / 6 \<le> pi / 2"
    using pi_ge_two by (simp_all add: M_PI_def)
  moreover have "- (pi / 2) \<le> pi / 6" "pi / 6 \<le> pi / 2"
    using pi_ge_two by simp_all
  ultimately have "M_PI / 6 < pi / 6"
    by (simp add: sin_mono_less_eq)
  then show ?thesis
    by simp
qed

lemma pi_less_float_pi: "pi < 13176795 / 4194304"
proof -
  have "sin (pi / 6) < sin (13176795 / 4194304 / 6)"
    using sin_sixth_float_pi by (simp add: sin_30)
  moreover have "- (pi / 2) \<le> 13176795 / 4194304 / 6" "13176795 / 4194304 / 6 \<le> pi / 2"
    using pi_ge_two by simp_all
  moreover have "- (pi / 2) \<le> pi / 6" "pi / 6 \<le> pi / 2"
    using pi_ge_two by simp_all
  ultimately have "pi / 6 < 13176795 / 4194304 / 6"
    by (simp only: sin_mono_less_eq)
  then show ?thesis
    by simp
qed

lemma float_below_M_PI: "13176794 / 4194304 < M_PI" "M_PI < 13176795 / 4194304" "2 < M_PI"
  by (simp_all add: M_PI_def)

text \<open>A \<open>float\<close> made from an angle between \<open>- pi\<close> and \<open>pi\<close> is at most 3.1415927.\<close>

lemma to_float_angle:
  assumes "\<bar>t\<bar> \<le> pi"
  shows "\<bar>to_float t\<bar> \<le> 13176795 / 4194304"
proof (cases "\<bar>t\<bar> \<le> 2")
  case True
  then have "\<bar>to_float t\<bar> \<le> 2" by (rule to_float_abs_le)
  then show ?thesis by simp
next
  case False
  then have b: "2 \<le> \<bar>t\<bar>" "\<bar>t\<bar> < 4"
    using assms pi_less_4 by simp_all
  have "t \<le> real_of_int 13176795 / 4194304" "real_of_int (- 13176795) / 4194304 \<le> t"
    using assms pi_less_float_pi by simp_all
  then have "to_float t \<le> real_of_int 13176795 / 4194304"
    "real_of_int (- 13176795) / 4194304 \<le> to_float t"
    using b by (simp_all only: to_float_le_2_4 to_float_ge_2_4)
  then show ?thesis by simp
qed

lemma to_float_difference:
  assumes "\<bar>x\<bar> \<le> 13176795 / 2097152"
  shows "\<bar>to_float x\<bar> \<le> 13176795 / 2097152"
proof (cases "\<bar>x\<bar> \<le> 4")
  case True
  then have "\<bar>to_float x\<bar> \<le> 4" by (rule to_float_abs_le)
  then show ?thesis by simp
next
  case False
  then have b: "4 \<le> \<bar>x\<bar>" "\<bar>x\<bar> < 8"
    using assms by simp_all
  have "x \<le> real_of_int 13176795 / 2097152" "real_of_int (- 13176795) / 2097152 \<le> x"
    using assms by simp_all
  then have "to_float x \<le> real_of_int 13176795 / 2097152"
    "real_of_int (- 13176795) / 2097152 \<le> to_float x"
    using b by (simp_all only: to_float_le_4_8 to_float_ge_4_8)
  then show ?thesis by simp
qed

text \<open>No \<open>float\<close> lies between 13176794 / 2^22 and 13176795 / 2^22, where \<open>M_PI\<close> is.\<close>

lemma float_above_M_PI:
  assumes "M_PI < to_float x"
  shows "13176795 / 4194304 \<le> to_float x"
proof -
  have pos: "0 < x"
  proof (rule ccontr)
    assume "\<not> 0 < x"
    then have "to_float x \<le> 0" by (intro to_float_sign) simp
    with assms float_below_M_PI(3) show False by linarith
  qed
  have "\<not> \<bar>x\<bar> \<le> 2"
  proof
    assume "\<bar>x\<bar> \<le> 2"
    then have "\<bar>to_float x\<bar> \<le> 2" by (rule to_float_abs_le)
    with assms float_below_M_PI(3) show False by linarith
  qed
  then have two: "2 \<le> \<bar>x\<bar>" by simp
  show ?thesis
  proof (cases "\<bar>x\<bar> < 4")
    case True
    from to_float_grid_2_4 [OF two True] obtain k where
      k: "to_float x = real_of_int k / 4194304" by blast
    with assms float_below_M_PI(1) have "real_of_int 13176794 < real_of_int k"
      by simp
    then have "13176794 < k" by (simp only: of_int_less_iff)
    then have "real_of_int 13176795 \<le> real_of_int k" by (simp only: of_int_le_iff)
    with k show ?thesis by simp
  next
    case False
    then have "4 \<le> \<bar>to_float x\<bar>" by (intro to_float_abs_ge) simp
    moreover have "0 \<le> to_float x" using pos by (intro to_float_sign) simp
    ultimately show ?thesis by simp
  qed
qed

lemma float_below_minus_M_PI:
  assumes "to_float x < - M_PI"
  shows "to_float x \<le> - (13176795 / 4194304)"
proof -
  have neg: "x < 0"
  proof (rule ccontr)
    assume "\<not> x < 0"
    then have "0 \<le> to_float x" by (intro to_float_sign) simp
    with assms float_below_M_PI(3) show False by linarith
  qed
  have "\<not> \<bar>x\<bar> \<le> 2"
  proof
    assume "\<bar>x\<bar> \<le> 2"
    then have "\<bar>to_float x\<bar> \<le> 2" by (rule to_float_abs_le)
    with assms float_below_M_PI(3) show False by linarith
  qed
  then have two: "2 \<le> \<bar>x\<bar>" by simp
  show ?thesis
  proof (cases "\<bar>x\<bar> < 4")
    case True
    from to_float_grid_2_4 [OF two True] obtain k where
      k: "to_float x = real_of_int k / 4194304" by blast
    with assms float_below_M_PI(1) have "real_of_int k < real_of_int (- 13176794)"
      by simp
    then have "k < - 13176794" by (simp only: of_int_less_iff)
    then have "real_of_int k \<le> real_of_int (- 13176795)" by (simp only: of_int_le_iff)
    with k show ?thesis by simp
  next
    case False
    then have "4 \<le> \<bar>to_float x\<bar>" by (intro to_float_abs_ge) simp
    moreover have "to_float x \<le> 0" using neg by (intro to_float_sign) simp
    ultimately show ?thesis by simp
  qed
qed

lemma float_within_M_PI:
  assumes "\<bar>to_float x\<bar> \<le> M_PI"
  shows "\<bar>to_float x\<bar> \<le> 13176794 / 4194304"
proof (cases "\<bar>x\<bar> \<le> 2")
  case True
  then have "\<bar>to_float x\<bar> \<le> 2" by (rule to_float_abs_le)
  then show ?thesis by simp
next
  case False
  then have two: "2 \<le> \<bar>x\<bar>" by simp
  have four: "\<bar>x\<bar> < 4"
  proof (rule ccontr)
    assume "\<not> \<bar>x\<bar> < 4"
    then have "4 \<le> \<bar>to_float x\<bar>" by (intro to_float_abs_ge) simp
    with assms float_below_M_PI(2) show False by simp
  qed
  from to_float_grid_2_4 [OF two four] obtain k where
    k: "to_float x = real_of_int k / 4194304" by blast
  with assms float_below_M_PI(2) have "real_of_int k < real_of_int 13176795"
    "real_of_int (- 13176795) < real_of_int k"
    by (simp_all add: abs_le_iff)
  then have "k < 13176795" "- 13176795 < k" by (simp_all only: of_int_less_iff)
  then have "real_of_int k \<le> real_of_int 13176794" "real_of_int (- 13176794) \<le> real_of_int k"
    by (simp_all only: of_int_le_iff)
  with k show ?thesis by (simp add: abs_le_iff)
qed

text \<open>
  After \<open>e_yaw -= 2 * M_PI\<close>: the \<open>double\<close> difference is at least
  \<open>13176795 / 2^22 - 2 * M_PI\<close>, a \<open>double\<close>, and the \<open>float\<close> nearest to that is
  \<open>- 13176794 / 2^22\<close>.
\<close>

lemma wrapped_down:
  assumes "- 7074237555169840 / 2251799813685248 \<le> x" "x \<le> 1"
  shows "- (13176794 / 4194304) \<le> to_float (to_double x) \<and> to_float (to_double x) \<le> 1"
proof -
  have up: "to_float (to_double x) \<le> 1"
  proof (cases "0 \<le> x")
    case True
    then have "\<bar>x\<bar> \<le> 1" using assms by simp
    then have "\<bar>to_double x\<bar> \<le> 1" by (rule to_double_abs_le)
    then have "\<bar>to_float (to_double x)\<bar> \<le> 1" by (rule to_float_abs_le)
    then show ?thesis by simp
  next
    case False
    then have "to_double x \<le> 0" by (intro to_double_sign) simp
    then have "to_float (to_double x) \<le> 0" by (intro to_float_sign)
    then show ?thesis by simp
  qed
  have low: "- (13176794 / 4194304) \<le> to_float (to_double x)"
  proof (cases "\<bar>x\<bar> \<le> 2")
    case True
    then have "\<bar>to_double x\<bar> \<le> 2" by (rule to_double_abs_le)
    then have "\<bar>to_float (to_double x)\<bar> \<le> 2" by (rule to_float_abs_le)
    then show ?thesis by simp
  next
    case False
    then have b: "2 \<le> \<bar>x\<bar>" "\<bar>x\<bar> < 4" "x < 0" using assms by simp_all
    have "real_of_int (- 7074237555169840) / 2251799813685248 \<le> x"
      "x \<le> real_of_int (- 4503599627370496) / 2251799813685248"
      using assms b by simp_all
    then have "real_of_int (- 7074237555169840) / 2251799813685248 \<le> to_double x"
      "to_double x \<le> real_of_int (- 4503599627370496) / 2251799813685248"
      using b by (simp_all only: to_double_le_2_4 to_double_ge_2_4)
    then have d: "- 7074237555169840 / 2251799813685248 \<le> to_double x" "to_double x \<le> - 2"
      by simp_all
    then have db: "2 \<le> \<bar>to_double x\<bar>" "\<bar>to_double x\<bar> < 4" by simp_all
    from to_float_grid_2_4 [OF db] obtain k where
      k: "to_float (to_double x) = real_of_int k / 4194304"
      "to_double x * 4194304 - 1 / 2 \<le> real_of_int k" by blast
    from d(1) k(2) have "real_of_int (- 13176795) < real_of_int k" by simp
    then have "- 13176795 < k" by (simp only: of_int_less_iff)
    then have "real_of_int (- 13176794) \<le> real_of_int k" by (simp only: of_int_le_iff)
    with k(1) show ?thesis by simp
  qed
  from low up show ?thesis ..
qed

lemma wrapped_up:
  assumes "- 1 \<le> x" "x \<le> 7074237555169840 / 2251799813685248"
  shows "- 1 \<le> to_float (to_double x) \<and> to_float (to_double x) \<le> 13176794 / 4194304"
proof -
  have low: "- 1 \<le> to_float (to_double x)"
  proof (cases "x \<le> 0")
    case True
    then have "\<bar>x\<bar> \<le> 1" using assms by simp
    then have "\<bar>to_double x\<bar> \<le> 1" by (rule to_double_abs_le)
    then have "\<bar>to_float (to_double x)\<bar> \<le> 1" by (rule to_float_abs_le)
    then show ?thesis by simp
  next
    case False
    then have "0 \<le> to_double x" by (intro to_double_sign) simp
    then have "0 \<le> to_float (to_double x)" by (intro to_float_sign)
    then show ?thesis by simp
  qed
  have up: "to_float (to_double x) \<le> 13176794 / 4194304"
  proof (cases "\<bar>x\<bar> \<le> 2")
    case True
    then have "\<bar>to_double x\<bar> \<le> 2" by (rule to_double_abs_le)
    then have "\<bar>to_float (to_double x)\<bar> \<le> 2" by (rule to_float_abs_le)
    then show ?thesis by simp
  next
    case False
    then have b: "2 \<le> \<bar>x\<bar>" "\<bar>x\<bar> < 4" "0 < x" using assms by simp_all
    have "x \<le> real_of_int 7074237555169840 / 2251799813685248"
      "real_of_int 4503599627370496 / 2251799813685248 \<le> x"
      using assms b by simp_all
    then have "to_double x \<le> real_of_int 7074237555169840 / 2251799813685248"
      "real_of_int 4503599627370496 / 2251799813685248 \<le> to_double x"
      using b by (simp_all only: to_double_le_2_4 to_double_ge_2_4)
    then have d: "to_double x \<le> 7074237555169840 / 2251799813685248" "2 \<le> to_double x"
      by simp_all
    then have db: "2 \<le> \<bar>to_double x\<bar>" "\<bar>to_double x\<bar> < 4" by simp_all
    from to_float_grid_2_4 [OF db] obtain k where
      k: "to_float (to_double x) = real_of_int k / 4194304"
      "real_of_int k \<le> to_double x * 4194304 + 1 / 2" by blast
    from d(1) k(2) have "real_of_int k < real_of_int 13176795" by simp
    then have "k < 13176795" by (simp only: of_int_less_iff)
    then have "real_of_int k \<le> real_of_int 13176794" by (simp only: of_int_le_iff)
    with k(1) show ?thesis by simp
  qed
  from low up show ?thesis ..
qed

text \<open>The wrap of lines 301 to 305 on two \<open>float\<close> angles.\<close>

lemma wrap_yaw_bounds:
  assumes "\<bar>a\<bar> \<le> 13176795 / 4194304" "\<bar>b\<bar> \<le> 13176795 / 4194304"
  shows "\<bar>wrap_yaw a b\<bar> \<le> 13176794 / 4194304"
proof -
  define e where "e = to_float (a - b)"
  have "\<bar>a - b\<bar> \<le> \<bar>a\<bar> + \<bar>b\<bar>" by (rule abs_triangle_ineq4)
  with assms have "\<bar>a - b\<bar> \<le> 13176795 / 2097152" by linarith
  then have e: "\<bar>e\<bar> \<le> 13176795 / 2097152"
    unfolding e_def by (rule to_float_difference)
  consider (hi) "M_PI < e" | (lo) "\<not> M_PI < e" "e < - M_PI" | (mid) "\<not> M_PI < e" "\<not> e < - M_PI"
    by blast
  then show ?thesis
  proof cases
    case hi
    then have "13176795 / 4194304 \<le> e" unfolding e_def by (rule float_above_M_PI)
    with e have "- 7074237555169840 / 2251799813685248 \<le> e - 2 * M_PI" "e - 2 * M_PI \<le> 1"
      by (simp_all add: M_PI_def)
    then have "- (13176794 / 4194304) \<le> to_float (to_double (e - 2 * M_PI)) \<and>
        to_float (to_double (e - 2 * M_PI)) \<le> 1"
      by (rule wrapped_down)
    moreover have "wrap_yaw a b = to_float (to_double (e - 2 * M_PI))"
      using hi by (simp add: wrap_yaw_def Let_def e_def)
    ultimately show ?thesis by (auto simp add: abs_le_iff)
  next
    case lo
    then have "e \<le> - (13176795 / 4194304)" unfolding e_def by (intro float_below_minus_M_PI)
    with e have "- 1 \<le> e + 2 * M_PI" "e + 2 * M_PI \<le> 7074237555169840 / 2251799813685248"
      by (simp_all add: M_PI_def)
    then have "- 1 \<le> to_float (to_double (e + 2 * M_PI)) \<and>
        to_float (to_double (e + 2 * M_PI)) \<le> 13176794 / 4194304"
      by (rule wrapped_up)
    moreover have "wrap_yaw a b = to_float (to_double (e + 2 * M_PI))"
      using lo by (simp add: wrap_yaw_def Let_def e_def)
    ultimately show ?thesis by (auto simp add: abs_le_iff)
  next
    case mid
    then have "\<bar>e\<bar> \<le> M_PI" by simp
    then have "\<bar>e\<bar> \<le> 13176794 / 4194304" unfolding e_def by (rule float_within_M_PI)
    moreover have "wrap_yaw a b = e"
      using mid by (simp add: wrap_yaw_def Let_def e_def)
    ultimately show ?thesis by simp
  qed
qed

lemma wrap_yaw_range:
  assumes "\<bar>x\<bar> \<le> pi" "\<bar>y\<bar> \<le> pi"
  shows "- pi < wrap_yaw (to_float x) (to_float y) \<and> wrap_yaw (to_float x) (to_float y) \<le> pi"
proof -
  have "\<bar>wrap_yaw (to_float x) (to_float y)\<bar> \<le> 13176794 / 4194304"
    by (intro wrap_yaw_bounds to_float_angle assms)
  moreover have "13176794 / 4194304 < pi"
    using float_below_M_PI(1) M_PI_less_pi by linarith
  ultimately show ?thesis by linarith
qed

subsection \<open>The yaw error of the nodelet\<close>

lemma std_atan2_range: "\<bar>std_atan2 y x\<bar> \<le> pi"
proof -
  have a: "- (pi / 2) < arctan (y / x)" "arctan (y / x) < pi / 2"
    by (rule arctan_lbound, rule arctan_ubound)
  have b: "x < 0 \<Longrightarrow> 0 \<le> y \<Longrightarrow> arctan (y / x) \<le> 0"
    by (simp add: divide_nonneg_neg arctan_le_zero_iff)
  have c: "x < 0 \<Longrightarrow> y < 0 \<Longrightarrow> 0 < arctan (y / x)"
    by (simp add: divide_neg_neg zero_less_arctan_iff)
  show ?thesis
    using a b c pi_gt_zero by (auto simp: std_atan2_def abs_le_iff)
qed

text \<open>
  With the vehicle turned half a circle and a level command: the current yaw is the
  \<open>float\<close> nearest to \<open>pi\<close>, 3.1415927 (above \<open>pi\<close>); the difference is below
  \<open>- M_PI\<close>, and the wrap takes it to 3.1415925, the \<open>float\<close> below \<open>pi\<close>.
\<close>

lemma to_float_pi: "to_float pi = 13176795 / 4194304"
proof -
  have "(real_of_int 13176795 - 1 / 2) * 2 powr real_of_int (1 - 24 + 1) < M_PI"
    by (simp add: M_PI_def powr_neg_numeral)
  then have l: "(real_of_int 13176795 - 1 / 2) * 2 powr real_of_int (1 - 24 + 1) < pi"
    using M_PI_less_pi by linarith
  have "13176795 / 4194304 < (real_of_int 13176795 + 1 / 2) * 2 powr real_of_int (1 - 24 + 1)"
    by (simp add: powr_neg_numeral)
  then have u: "pi < (real_of_int 13176795 + 1 / 2) * 2 powr real_of_int (1 - 24 + 1)"
    using pi_less_float_pi by linarith
  have b: "2 powr real_of_int 1 \<le> \<bar>pi\<bar>" "\<bar>pi\<bar> < 2 powr real_of_int (1 + 1)"
    using pi_ge_two pi_less_4 by simp_all
  from rnd_near [OF b l u] show ?thesis
    by (simp add: to_float_def powr_neg_numeral)
qed

lemma to_float_minus_float_pi: "to_float (- (13176795 / 4194304)) = - (13176795 / 4194304)"
  using rnd_near [of 1 "- (13176795 / 4194304)" "- 13176795" 24]
  by (simp add: to_float_def powr_neg_numeral)

lemma to_double_wrapped: "to_double (3537118777584920 / 1125899906842624) = 3537118777584920 / 1125899906842624"
  using rnd_near [of 1 "3537118777584920 / 1125899906842624" 7074237555169840 53]
  by (simp add: to_double_def powr_neg_numeral)

lemma to_float_wrapped: "to_float (3537118777584920 / 1125899906842624) = 13176794 / 4194304"
  using rnd_near [of 1 "3537118777584920 / 1125899906842624" 13176794 24]
  by (simp add: to_float_def powr_neg_numeral)

lemma wrap_yaw_half_turn: "wrap_yaw 0 (13176795 / 4194304) = 13176794 / 4194304"
proof -
  have e: "to_float (0 - 13176795 / 4194304) = - (13176795 / 4194304)"
    using to_float_minus_float_pi by simp
  have c: "\<not> M_PI < - (13176795 / 4194304)" "- (13176795 / 4194304) < - M_PI"
    by (simp_all add: M_PI_def)
  have v: "- (13176795 / 4194304) + 2 * M_PI = 3537118777584920 / 1125899906842624"
    by (simp add: M_PI_def)
  show ?thesis
    unfolding wrap_yaw_def Let_def e
    by (simp only: c if_False if_True v to_double_wrapped to_float_wrapped)
qed

lemma yaw_cur_half_turn:
  "yaw_cur (s\<lparr>q_odom := \<lparr>qw = 0, qx = 0, qy = 0, qz = 1\<rparr>\<rparr>) = 13176795 / 4194304"
  by (simp add: yaw_cur_def toRotationMatrix_def Let_def std_atan2_def to_float_pi)

lemma yaw_des_level: "yaw_des msg_on = 0"
  by (simp add: yaw_des_def toRotationMatrix_def Let_def std_atan2_def msg_on_def)

lemma e_yaw_half_turn:
  "e_yaw (s\<lparr>q_odom := \<lparr>qw = 0, qx = 0, qy = 0, qz = 1\<rparr>\<rparr>) msg_on = 13176794 / 4194304"
  by (simp only: e_yaw_def yaw_cur_half_turn yaw_des_level wrap_yaw_half_turn)

lemma e_yaw_range: "- pi < e_yaw s msg \<and> e_yaw s msg \<le> pi"
  unfolding e_yaw_def yaw_des_def yaw_cur_def Let_def
  by (intro wrap_yaw_range std_atan2_range)

text \<open>
  Claim C2. For every current and every desired orientation (unit quaternions or not),
  the yaw error that enters the yaw-rate command is greater than \<open>- pi\<close> and at most
  \<open>pi\<close>. The two yaw angles and the error are \<open>float\<close>s, the comparisons are with the
  \<open>double\<close> \<open>M_PI\<close>, and the wrap is computed in \<open>double\<close> and stored in the \<open>float\<close>.
  The same holds of the wrap for any two angles \<open>a\<close> and \<open>b\<close> between \<open>- pi\<close> and
  \<open>pi\<close> in the place of the ones that \<open>atan2\<close> returns here (it returns \<open>- pi\<close>
  at a negative zero).
\<close>

theorem yaw_error_range:
  "- pi < e_yaw s msg \<and> e_yaw s msg \<le> pi \<and>
   yaw_rate_des s msg = ((- kR msg 2 * e_yaw s msg) - vz (angular_velocity msg)) * (180 / M_PI) \<and>
   (\<bar>a\<bar> \<le> pi \<and> \<bar>b\<bar> \<le> pi \<longrightarrow>
      - pi < wrap_yaw (to_float a) (to_float b) \<and> wrap_yaw (to_float a) (to_float b) \<le> pi)"
  using e_yaw_range [of s msg] wrap_yaw_range [of a b]
  by (simp add: yaw_rate_des_def)

text \<open>
  Claim C2 at the half turn: the yaw error is 13176794 / 2^22 = 3.1415925; and the wrap
  for the angles \<open>pi\<close> and \<open>- pi\<close>.
\<close>

theorem yaw_error_range_witness:
  "\<bar>pi\<bar> \<le> pi \<and> \<bar>- pi\<bar> \<le> pi \<and>
   - pi < wrap_yaw (to_float pi) (to_float (- pi)) \<and>
   wrap_yaw (to_float pi) (to_float (- pi)) \<le> pi \<and>
   e_yaw (node3\<lparr>q_odom := \<lparr>qw = 0, qx = 0, qy = 0, qz = 1\<rparr>\<rparr>) msg_on = 13176794 / 4194304 \<and>
   - pi < (13176794 / 4194304 :: real) \<and> (13176794 / 4194304 :: real) \<le> pi"
proof -
  have h: "\<bar>pi\<bar> \<le> pi \<and> \<bar>- pi\<bar> \<le> pi"
    by simp
  note t = yaw_error_range [of "node3\<lparr>q_odom := \<lparr>qw = 0, qx = 0, qy = 0, qz = 1\<rparr>\<rparr>" msg_on
      pi "- pi"]
  from t h have w: "- pi < wrap_yaw (to_float pi) (to_float (- pi)) \<and>
      wrap_yaw (to_float pi) (to_float (- pi)) \<le> pi"
    by blast
  have e: "e_yaw (node3\<lparr>q_odom := \<lparr>qw = 0, qx = 0, qy = 0, qz = 1\<rparr>\<rparr>) msg_on =
      13176794 / 4194304"
    by (rule e_yaw_half_turn)
  from t have "- pi < e_yaw (node3\<lparr>q_odom := \<lparr>qw = 0, qx = 0, qy = 0, qz = 1\<rparr>\<rparr>) msg_on \<and>
      e_yaw (node3\<lparr>q_odom := \<lparr>qw = 0, qx = 0, qy = 0, qz = 1\<rparr>\<rparr>) msg_on \<le> pi"
    by blast
  then have r: "- pi < (13176794 / 4194304 :: real) \<and> (13176794 / 4194304 :: real) \<le> pi"
    by (simp only: e)
  from h w e r show ?thesis by blast
qed

end
